theory Spec2Isabelle
  imports Main
begin

section \<open>JavaScript values as the completion code sees them\<close>

text \<open>
  The event payloads that \<^verbatim>\<open>complete\<close> reads are typed \<^verbatim>\<open>unknown\<close> in the source
  and inspected with \<^verbatim>\<open>typeof\<close>, truthiness tests and property reads, so they are
  modelled as untyped values. Numbers are the integers (token counts); for the
  property reads, truthiness and \<^verbatim>\<open>typeof\<close> tests an array behaves like an
  object without the keys that are looked up and is not a constructor of its
  own.
\<close>

datatype jsval =
    JUndefined
  | JNull
  | JBool bool
  | JNum int
  | JStr string
  | JObj "(string \<times> jsval) list"

text \<open>
  Errors are values. \<open>Aborted\<close>, \<open>FailedToCreateSession\<close>, \<open>PromptFailed\<close> and
  \<open>AlreadyInitialized\<close> are the \<^verbatim>\<open>new Error(...)\<close> of complete.ts and session.ts,
  \<open>TypeError\<close> is what the runtime raises
  when a property of \<^verbatim>\<open>undefined\<close> or \<^verbatim>\<open>null\<close> is read, and \<open>Remote m\<close> is an
  error raised by the OpenCode runtime (a collaborator outside the repository).
\<close>

datatype error =
    Aborted
  | FailedToCreateSession
  | PromptFailed
  | AlreadyInitialized
  | TypeError
  | Remote string

definition bind_err :: "error + 'a \<Rightarrow> ('a \<Rightarrow> error + 'b) \<Rightarrow> error + 'b" where
  "bind_err m f = (case m of Inl e \<Rightarrow> Inl e | Inr x \<Rightarrow> f x)"

text \<open>Truthiness: what \<^verbatim>\<open>if (v)\<close>, \<^verbatim>\<open>!v\<close> and \<^verbatim>\<open>v && w\<close> test.\<close>

fun truthy :: "jsval \<Rightarrow> bool" where
  "truthy JUndefined = False"
| "truthy JNull = False"
| "truthy (JBool b) = b"
| "truthy (JNum n) = (n \<noteq> 0)"
| "truthy (JStr s) = (s \<noteq> [])"
| "truthy (JObj kvs) = True"

text \<open>\<^verbatim>\<open>v == null\<close>: the test behind \<^verbatim>\<open>??\<close> and \<^verbatim>\<open>?.\<close>.\<close>

fun nullish :: "jsval \<Rightarrow> bool" where
  "nullish JUndefined = True"
| "nullish JNull = True"
| "nullish v = False"

text \<open>\<^verbatim>\<open>typeof v === "object"\<close> (true of \<^verbatim>\<open>null\<close> as well).\<close>

fun typeof_object :: "jsval \<Rightarrow> bool" where
  "typeof_object JNull = True"
| "typeof_object (JObj kvs) = True"
| "typeof_object v = False"

text \<open>
  The property read \<^verbatim>\<open>v.k\<close>: a TypeError on \<^verbatim>\<open>undefined\<close> and \<^verbatim>\<open>null\<close>, the stored
  value on an object that has the key, \<^verbatim>\<open>undefined\<close> otherwise (the keys read by the
  source are no properties of a boolean, number or string).
\<close>

fun get_prop :: "jsval \<Rightarrow> string \<Rightarrow> error + jsval" where
  "get_prop JUndefined k = Inl TypeError"
| "get_prop JNull k = Inl TypeError"
| "get_prop (JObj kvs) k = Inr (case map_of kvs k of None \<Rightarrow> JUndefined | Some v \<Rightarrow> v)"
| "get_prop v k = Inr JUndefined"

text \<open>The optional read \<^verbatim>\<open>v?.k\<close>.\<close>

definition get_prop_opt :: "jsval \<Rightarrow> string \<Rightarrow> error + jsval" where
  "get_prop_opt v k = (if nullish v then Inr JUndefined else get_prop v k)"

text \<open>\<^verbatim>\<open>v ?? d\<close>.\<close>

definition nullish_or :: "jsval \<Rightarrow> jsval \<Rightarrow> jsval" where
  "nullish_or v d = (if nullish v then d else v)"

section \<open>The event filter (complete.ts, lines 161--165 and 256--272)\<close>

text \<open>
  \<^verbatim>\<open>extractSessionId\<close> returns \<^verbatim>\<open>string | undefined\<close>; \<open>None\<close> is \<^verbatim>\<open>undefined\<close>.
\<close>

definition extractSessionId :: "jsval \<Rightarrow> error + string option" where
  "extractSessionId event =
     bind_err (get_prop event ''properties'') (\<lambda>props.
       if \<not> truthy props then Inr None
       else bind_err (get_prop props ''sessionID'') (\<lambda>top.
         case top of
           JStr s \<Rightarrow> Inr (Some s)
         | _ \<Rightarrow> bind_err (get_prop props ''info'') (\<lambda>info.
             if truthy info \<and> typeof_object info then
               bind_err (get_prop info ''sessionID'') (\<lambda>nested.
                 case nested of JStr s \<Rightarrow> Inr (Some s) | _ \<Rightarrow> Inr None)
             else Inr None)))"

text \<open>
  The test \<^verbatim>\<open>eventSessionId && eventSessionId !== sessionId\<close> that makes the loop
  skip an event.
\<close>

definition foreign_session :: "string option \<Rightarrow> string \<Rightarrow> bool" where
  "foreign_session eventSessionId sessionId =
     (case eventSessionId of None \<Rightarrow> False | Some s \<Rightarrow> s \<noteq> [] \<and> s \<noteq> sessionId)"

text \<open>
  Lines 161--165: \<open>Inr True\<close> when the event reaches the accumulator, \<open>Inr False\<close>
  when the loop executes \<^verbatim>\<open>continue\<close>.
\<close>

definition event_filter :: "string \<Rightarrow> jsval \<Rightarrow> error + bool" where
  "event_filter sessionId event =
     (if \<not> truthy event then Inr False
      else bind_err (extractSessionId event) (\<lambda>eventSessionId.
        Inr (\<not> foreign_session eventSessionId sessionId)))"

text \<open>
  The extraction order in the specification's words, over a read that never fails:
  the string at \<^verbatim>\<open>properties.sessionID\<close>, failing that the string at
  \<^verbatim>\<open>properties.info.sessionID\<close>.
\<close>

fun field :: "jsval \<Rightarrow> string \<Rightarrow> jsval" where
  "field (JObj kvs) k = (case map_of kvs k of None \<Rightarrow> JUndefined | Some v \<Rightarrow> v)"
| "field v k = JUndefined"

fun as_string :: "jsval \<Rightarrow> string option" where
  "as_string (JStr s) = Some s"
| "as_string v = None"

definition spec_session_id :: "jsval \<Rightarrow> string option" where
  "spec_session_id event =
     (case as_string (field (field event ''properties'') ''sessionID'') of
        Some s \<Rightarrow> Some s
      | None \<Rightarrow> as_string (field (field (field event ''properties'') ''info'') ''sessionID''))"

section \<open>The response accumulator (complete.ts, lines 147--188)\<close>

text \<open>
  \<^verbatim>\<open>a + b\<close> on the operands the accumulator adds. Both are of the form
  \<^verbatim>\<open>v ?? 0\<close>, hence never \<^verbatim>\<open>undefined\<close> or \<^verbatim>\<open>null\<close>: a string or an object
  operand makes \<^verbatim>\<open>+\<close> a concatenation, otherwise both are booleans or numbers
  (the only values \<open>js_to_int\<close> is then applied to) and booleans count as 0 and 1.
  This is the sum for token counts as the runtime sends them (integers below
  \<^verbatim>\<open>2^53\<close>, where doubles add exactly) and for plain objects; integers print
  in decimal notation, which is what the code prints below \<^verbatim>\<open>1e21\<close>, and an
  array operand (printed by joining its elements) is outside the model. Only
  the usage record depends on it.
\<close>

fun show_nat :: "nat \<Rightarrow> string" where
  "show_nat n =
     (if n < 10 then [char_of (48 + n)]
      else show_nat (n div 10) @ [char_of (48 + n mod 10)])"

declare show_nat.simps [simp del]

definition show_int :: "int \<Rightarrow> string" where
  "show_int i = (if i < 0 then CHR ''-'' # show_nat (nat (- i)) else show_nat (nat i))"

fun js_to_string :: "jsval \<Rightarrow> string" where
  "js_to_string JUndefined = ''undefined''"
| "js_to_string JNull = ''null''"
| "js_to_string (JBool b) = (if b then ''true'' else ''false'')"
| "js_to_string (JNum n) = show_int n"
| "js_to_string (JStr s) = s"
| "js_to_string (JObj kvs) = ''[object Object]''"

fun js_to_int :: "jsval \<Rightarrow> int" where
  "js_to_int (JBool b) = (if b then 1 else 0)"
| "js_to_int (JNum n) = n"
| "js_to_int v = 0"

fun concatenates :: "jsval \<Rightarrow> bool" where
  "concatenates (JStr s) = True"
| "concatenates (JObj kvs) = True"
| "concatenates v = False"

definition js_plus :: "jsval \<Rightarrow> jsval \<Rightarrow> jsval" where
  "js_plus a b =
     (if concatenates a \<or> concatenates b then JStr (js_to_string a @ js_to_string b)
      else JNum (js_to_int a + js_to_int b))"

datatype StopReason = end_turn | tool_use | max_tokens | stop_sequence

text \<open>
  \<^verbatim>\<open>Usage\<close>: the three fields the code writes (the optional cache counters are
  never set). The casts \<^verbatim>\<open>as number\<close> do nothing at run time, so the fields hold
  whatever the event carried.
\<close>

record Usage =
  inputTokens :: jsval
  outputTokens :: jsval
  totalTokens :: jsval

record ToolCall =
  call_id :: string
  call_name :: string
  call_arguments :: string

text \<open>The local variables of lines 148--155.\<close>

record loop_state =
  responseText :: jsval
  toolCalls :: "ToolCall list"
  usage :: Usage
  stopReason :: StopReason

definition initial_state :: loop_state where
  "initial_state =
     \<lparr>responseText = JStr [],
      toolCalls = [],
      usage = \<lparr>inputTokens = JNum 0, outputTokens = JNum 0, totalTokens = JNum 0\<rparr>,
      stopReason = end_turn\<rparr>"

text \<open>
  The three branches of the loop body. Each returns \<open>Inr (True, s)\<close> for
  \<^verbatim>\<open>break\<close>, \<open>Inr (False, s)\<close> to go on to the next event, and \<open>Inl e\<close> for an
  exception raised inside the body.
\<close>

text \<open>Lines 168--171, \<^verbatim>\<open>"message.part.updated"\<close>.\<close>

definition on_part_updated :: "loop_state \<Rightarrow> jsval \<Rightarrow> error + bool \<times> loop_state" where
  "on_part_updated st event =
     bind_err (get_prop event ''properties'') (\<lambda>props.
     bind_err (get_prop props ''part'') (\<lambda>part.
     bind_err (get_prop_opt part ''type'') (\<lambda>part_type.
       if part_type = JStr ''text'' then
         bind_err (get_prop part ''text'') (\<lambda>t.
           Inr (False, st\<lparr>responseText := nullish_or t (JStr [])\<rparr>))
       else Inr (False, st))))"

text \<open>Lines 173--181, \<^verbatim>\<open>"message.updated"\<close>.\<close>

definition on_message_updated :: "loop_state \<Rightarrow> jsval \<Rightarrow> error + bool \<times> loop_state" where
  "on_message_updated st event =
     bind_err (get_prop event ''properties'') (\<lambda>props.
     bind_err (get_prop props ''info'') (\<lambda>info.
     bind_err (get_prop_opt info ''role'') (\<lambda>role.
       if role = JStr ''assistant'' then
         bind_err (get_prop info ''tokens'') (\<lambda>tokens.
           if truthy tokens then
             bind_err (get_prop tokens ''input'') (\<lambda>inp.
             bind_err (get_prop tokens ''output'') (\<lambda>outp.
               Inr (False, st\<lparr>usage :=
                 \<lparr>inputTokens = nullish_or inp (JNum 0),
                  outputTokens = nullish_or outp (JNum 0),
                  totalTokens = js_plus (nullish_or inp (JNum 0)) (nullish_or outp (JNum 0))\<rparr>\<rparr>)))
           else Inr (False, st))
       else Inr (False, st))))"

text \<open>Lines 183--186, \<^verbatim>\<open>"session.idle"\<close> and \<^verbatim>\<open>"session.status"\<close>.\<close>

definition on_session_status :: "loop_state \<Rightarrow> jsval \<Rightarrow> error + bool \<times> loop_state" where
  "on_session_status st event =
     bind_err (get_prop event ''properties'') (\<lambda>props.
     bind_err (get_prop props ''status'') (\<lambda>status.
       if \<not> truthy status then Inr (True, st)
       else bind_err (get_prop status ''type'') (\<lambda>status_type.
         if status_type = JStr ''idle'' then Inr (True, st) else Inr (False, st))))"

text \<open>
  One iteration of the loop body from line 161 on, for an event the stream
  delivered while the call was not aborted.
\<close>

definition process_event :: "string \<Rightarrow> loop_state \<Rightarrow> jsval \<Rightarrow> error + bool \<times> loop_state" where
  "process_event sessionId st event =
     bind_err (event_filter sessionId event) (\<lambda>accepted.
       if \<not> accepted then Inr (False, st)
       else bind_err (get_prop event ''type'') (\<lambda>ty.
         if ty = JStr ''message.part.updated'' then on_part_updated st event
         else if ty = JStr ''message.updated'' then on_message_updated st event
         else if ty = JStr ''session.idle'' \<or> ty = JStr ''session.status''
           then on_session_status st event
         else Inr (False, st)))"

section \<open>The event loop and the cancellation bridge (lines 157--203)\<close>

text \<open>
  What one \<^verbatim>\<open>for await\<close> over the subscribed stream can observe, in the order
  it happens: the stream delivers an event, the caller's signal fires (the
  listener of line 79 then aborts the internal controller, if a signal was
  given), or the iteration itself throws. The end of the list is the end of the
  stream. Closing the iterator on \<^verbatim>\<open>break\<close> is taken to succeed.
\<close>

datatype stream_step =
    Yield jsval
  | ExternalAbort
  | StreamThrow error

text \<open>
  The exit of the loop: how the \<^verbatim>\<open>try\<close> statement of lines 158--193 completes,
  the state of \<^verbatim>\<open>abortController.signal.aborted\<close> there, and (for stating
  properties only) the events that passed the filter, in order.
\<close>

record loop_exit =
  outcome :: "error + loop_state"
  aborted_at_exit :: bool
  handled :: "jsval list"

text \<open>Lines 189--193: the \<^verbatim>\<open>catch\<close> of the loop.\<close>

definition loop_catch :: "bool \<Rightarrow> error \<Rightarrow> loop_state \<Rightarrow> error + loop_state" where
  "loop_catch aborted err st = (if \<not> aborted then Inl err else Inr st)"

fun event_loop :: "string \<Rightarrow> bool \<Rightarrow> bool \<Rightarrow> loop_state \<Rightarrow> stream_step list \<Rightarrow> loop_exit" where
  "event_loop sessionId linked aborted st [] =
     \<lparr>outcome = Inr st, aborted_at_exit = aborted, handled = []\<rparr>"
| "event_loop sessionId linked aborted st (ExternalAbort # rest) =
     event_loop sessionId linked (aborted \<or> linked) st rest"
| "event_loop sessionId linked aborted st (StreamThrow err # rest) =
     \<lparr>outcome = loop_catch aborted err st, aborted_at_exit = aborted, handled = []\<rparr>"
| "event_loop sessionId linked aborted st (Yield event # rest) =
     (if aborted then \<lparr>outcome = Inr st, aborted_at_exit = aborted, handled = []\<rparr>
      else
        (case process_event sessionId st event of
           Inl err \<Rightarrow>
             \<lparr>outcome = loop_catch aborted err st, aborted_at_exit = aborted, handled = []\<rparr>
         | Inr (stop, st') \<Rightarrow>
             (let seen = (if event_filter sessionId event = Inr True then [event] else [])
              in if stop then \<lparr>outcome = Inr st', aborted_at_exit = aborted, handled = seen\<rparr>
                 else (let r = event_loop sessionId linked aborted st' rest
                       in r\<lparr>handled := seen @ handled r\<rparr>))))"

text \<open>
  Lines 195--203: awaiting the prompt promise. \<open>Some cause\<close> is a rejection; the
  cause is dropped by the \<^verbatim>\<open>catch\<close> without a binding.
\<close>

definition await_prompt :: "bool \<Rightarrow> error option \<Rightarrow> error + unit" where
  "await_prompt aborted settled =
     (case settled of
        None \<Rightarrow> Inr ()
      | Some cause \<Rightarrow> (if \<not> aborted then Inl PromptFailed else Inr ()))"

section \<open>The completion request (types.ts, complete.ts lines 12--35 and 116--135)\<close>

datatype Role = user | assistant | system | tool

datatype Content =
    TextContent string
  | ImageContent "string option" "string option" "string option"

text \<open>\<^verbatim>\<open>content: Content[] | string\<close>.\<close>

datatype MessageContent =
    Plain string
  | Structured "Content list"

record Message =
  role :: Role
  content :: MessageContent

text \<open>
  The options \<^verbatim>\<open>complete\<close> reads (\<^verbatim>\<open>tools\<close>, \<^verbatim>\<open>maxTokens\<close> and \<^verbatim>\<open>temperature\<close>
  are never read). \<open>abortSignal = Some b\<close> is a signal whose \<^verbatim>\<open>aborted\<close> flag is
  \<open>b\<close> when the call starts.
\<close>

record CompleteOptions =
  model :: "string option"
  workspaceDir :: string
  messages :: "Message list option"
  prompt :: "string option"
  systemPrompt :: "string option"
  timeout :: "int option"
  providerConfig :: "jsval option"
  abortSignal :: "bool option"

text \<open>Truthiness of an optional string: present and not empty.\<close>

definition given :: "string option \<Rightarrow> bool" where
  "given s = (case s of None \<Rightarrow> False | Some t \<Rightarrow> t \<noteq> [])"

text \<open>\<^verbatim>\<open>Array.prototype.join\<close> on strings.\<close>

fun join :: "string \<Rightarrow> string list \<Rightarrow> string" where
  "join sep [] = []"
| "join sep [x] = x"
| "join sep (x # y # ys) = x @ sep @ join sep (y # ys)"

text \<open>A prompt part \<^verbatim>\<open>{ type: "text", text }\<close>.\<close>

datatype Part = TextPart string

text \<open>Lines 124--127: the text synthesised from the messages.\<close>

definition messages_text :: "Message list \<Rightarrow> string" where
  "messages_text ms =
     join [CHR 0x0A]
       (map (\<lambda>m. case content m of Plain s \<Rightarrow> s | Structured cs \<Rightarrow> [])
          (filter (\<lambda>m. role m = user) ms))"

text \<open>Lines 117--135.\<close>

definition build_parts :: "CompleteOptions \<Rightarrow> Part list" where
  "build_parts options =
     (let parts =
        (if given (prompt options) then [TextPart (the (prompt options))]
         else (case messages options of
                 Some ms \<Rightarrow>
                   (let t = messages_text ms in if t \<noteq> [] then [TextPart t] else [])
               | None \<Rightarrow> []))
      in if given (systemPrompt options)
         then parts @ [TextPart (''[System]: '' @ the (systemPrompt options))]
         else parts)"

text \<open>Lines 83--89.\<close>

definition opencodeConfig :: "string option \<Rightarrow> jsval option \<Rightarrow> (string \<times> jsval) list" where
  "opencodeConfig m pc =
     (if given m then [(''model'', JStr (the m))] else []) @
     (case pc of None \<Rightarrow> [] | Some v \<Rightarrow> if truthy v then [(''provider'', v)] else [])"

section \<open>The OpenCode runtime and the calls made to it\<close>

text \<open>
  The runtime is outside the repository; one call of \<^verbatim>\<open>complete\<close> sees it
  through the outcome of each request it makes. \<open>Some e\<close> is a rejection or a
  throw with \<open>e\<close>. \<open>session_create_result = Inr None\<close> is a response without
  \<^verbatim>\<open>data\<close>. \<open>abort_while_awaiting_prompt\<close> says whether the caller's signal fires
  after the loop has exited and before the prompt promise settles.
\<close>

record Runtime =
  createOpencode_result :: "error option"
  close_result :: "error option"
  session_create_result :: "error + string option"
  subscribe_result :: "error + stream_step list"
  prompt_result :: "error option"
  abort_while_awaiting_prompt :: bool

text \<open>
  The requests, logged in the order they are issued: \<^verbatim>\<open>createOpencode\<close> with its
  timeout, port and config, \<^verbatim>\<open>client.session.create\<close> with the directory,
  \<^verbatim>\<open>client.event.subscribe\<close>, \<^verbatim>\<open>client.session.prompt\<close> with the session and the
  parts, and \<^verbatim>\<open>server.close\<close>.
\<close>

datatype call =
    CreateOpencode int "int option" "(string \<times> jsval) list"
  | SessionCreate string
  | EventSubscribe
  | SessionPrompt string "Part list"
  | ServerClose

text \<open>
  \<^verbatim>\<open>try { serverClose?.() } catch { }\<close> (complete.ts lines 212--216, session.ts
  lines 110--114). The variable holds nothing, or the close function, described
  by what calling it does.
\<close>

definition swallow :: "error + unit \<Rightarrow> error + unit" where
  "swallow r = (case r of Inl e \<Rightarrow> Inr () | Inr u \<Rightarrow> Inr u)"

definition release :: "error option option \<Rightarrow> (error + unit) \<times> call list" where
  "release serverClose =
     (case serverClose of
        None \<Rightarrow> (swallow (Inr ()), [])
      | Some close \<Rightarrow>
          (swallow (case close of None \<Rightarrow> Inr () | Some e \<Rightarrow> Inl e), [ServerClose]))"

text \<open>
  \<^verbatim>\<open>try { body } finally { fin }\<close>: an exception of the \<^verbatim>\<open>finally\<close> block replaces
  the completion of the body, otherwise the body's completion stands.
\<close>

definition js_finally :: "error + 'a \<Rightarrow> error + unit \<Rightarrow> error + 'a" where
  "js_finally body fin = (case fin of Inl e \<Rightarrow> Inl e | Inr u \<Rightarrow> body)"

section \<open>complete (complete.ts, lines 71--218)\<close>

record CompleteResult =
  res_text :: jsval
  res_toolCalls :: "ToolCall list option"
  res_stopReason :: StopReason
  res_usage :: Usage

text \<open>Lines 205--210.\<close>

definition finalize :: "loop_state \<Rightarrow> CompleteResult" where
  "finalize st =
     \<lparr>res_text = responseText st,
      res_toolCalls = (if length (toolCalls st) > 0 then Some (toolCalls st) else None),
      res_stopReason = stopReason st,
      res_usage = usage st\<rparr>"

text \<open>
  The \<^verbatim>\<open>try\<close> block of lines 94--210: its completion, the value of the variable
  \<^verbatim>\<open>serverClose\<close> when it is left, and the requests it issued.
\<close>

definition complete_try ::
  "CompleteOptions \<Rightarrow> Runtime \<Rightarrow> bool \<Rightarrow>
     (error + CompleteResult) \<times> error option option \<times> call list" where
  "complete_try options rt linked =
     (let log0 = [CreateOpencode (case timeout options of None \<Rightarrow> 120000 | Some t \<Rightarrow> t) None
                    (opencodeConfig (model options) (providerConfig options))]
      in case createOpencode_result rt of
           Some e \<Rightarrow> (Inl e, None, log0)
         | None \<Rightarrow>
             (let serverClose = Some (close_result rt);
                  log1 = log0 @ [SessionCreate (workspaceDir options)]
              in case session_create_result rt of
                   Inl e \<Rightarrow> (Inl e, serverClose, log1)
                 | Inr None \<Rightarrow> (Inl FailedToCreateSession, serverClose, log1)
                 | Inr (Some sessionId) \<Rightarrow>
                     (let parts = build_parts options;
                          log2 = log1 @ [EventSubscribe]
                      in case subscribe_result rt of
                           Inl e \<Rightarrow> (Inl e, serverClose, log2)
                         | Inr eventStream \<Rightarrow>
                             (let log3 = log2 @ [SessionPrompt sessionId parts];
                                  lp = event_loop sessionId linked False initial_state eventStream
                              in case outcome lp of
                                   Inl e \<Rightarrow> (Inl e, serverClose, log3)
                                 | Inr st \<Rightarrow>
                                     (let aborted = aborted_at_exit lp \<or>
                                            (linked \<and> abort_while_awaiting_prompt rt)
                                      in case await_prompt aborted (prompt_result rt) of
                                           Inl e \<Rightarrow> (Inl e, serverClose, log3)
                                         | Inr u \<Rightarrow> (Inr (finalize st), serverClose, log3))))))"

text \<open>
  Line 79: the listener that aborts the internal controller exists exactly when
  the caller gave a signal.
\<close>

definition has_listener :: "CompleteOptions \<Rightarrow> bool" where
  "has_listener options = (abortSignal options \<noteq> None)"

definition complete :: "CompleteOptions \<Rightarrow> Runtime \<Rightarrow> (error + CompleteResult) \<times> call list" where
  "complete options rt =
     (if abortSignal options = Some True then (Inl Aborted, [])
      else
        (case complete_try options rt (has_listener options) of
           (body, serverClose, log) \<Rightarrow>
             (case release serverClose of
                (fin, closing) \<Rightarrow> (js_finally body fin, log @ closing))))"

section \<open>streamComplete (complete.ts, lines 224--240)\<close>

datatype StreamEvent =
    TextEvent jsval
  | ToolCallStart string string
  | ToolCallDelta string string
  | ToolCallEnd string string string
  | Done CompleteResult

text \<open>The three \<^verbatim>\<open>yield\<close>s of one iteration of the loop over the tool calls.\<close>

definition yield_tool_call :: "StreamEvent list \<Rightarrow> ToolCall \<Rightarrow> StreamEvent list" where
  "yield_tool_call yielded tc =
     yielded @
       [ToolCallStart (call_id tc) (call_name tc),
        ToolCallDelta (call_id tc) (call_arguments tc),
        ToolCallEnd (call_id tc) (call_name tc) (call_arguments tc)]"

text \<open>Everything the generator yields once \<^verbatim>\<open>complete\<close> has returned \<open>result\<close>.\<close>

definition yields :: "CompleteResult \<Rightarrow> StreamEvent list" where
  "yields result =
     (let y1 = (if truthy (res_text result) then [TextEvent (res_text result)] else []);
          y2 = foldl yield_tool_call y1
                 (case res_toolCalls result of None \<Rightarrow> [] | Some tcs \<Rightarrow> tcs)
      in y2 @ [Done result])"

text \<open>
  The generator run to its end: the events yielded, the error it throws if
  \<^verbatim>\<open>complete\<close> rejects, and the requests issued.
\<close>

definition streamComplete ::
  "CompleteOptions \<Rightarrow> Runtime \<Rightarrow> (StreamEvent list \<times> error option) \<times> call list" where
  "streamComplete options rt =
     (case complete options rt of
        (Inl e, log) \<Rightarrow> (([], Some e), log)
      | (Inr result, log) \<Rightarrow> ((yields result, None), log))"

text \<open>
  The sequence in the specification's words: a text event if the text is not
  empty, a start/delta/end triple per tool call, one final done event.
\<close>

definition spec_stream :: "CompleteResult \<Rightarrow> StreamEvent list" where
  "spec_stream result =
     (if res_text result = JStr [] then [] else [TextEvent (res_text result)]) @
     concat (map (\<lambda>tc. [ToolCallStart (call_id tc) (call_name tc),
                        ToolCallDelta (call_id tc) (call_arguments tc),
                        ToolCallEnd (call_id tc) (call_name tc) (call_arguments tc)])
               (case res_toolCalls result of None \<Rightarrow> [] | Some tcs \<Rightarrow> tcs)) @
     [Done result]"

fun is_tool_event :: "StreamEvent \<Rightarrow> bool" where
  "is_tool_event (ToolCallStart i n) = True"
| "is_tool_event (ToolCallDelta i d) = True"
| "is_tool_event (ToolCallEnd i n a) = True"
| "is_tool_event ev = False"

fun is_done :: "StreamEvent \<Rightarrow> bool" where
  "is_done (Done r) = True"
| "is_done ev = False"

section \<open>SessionManager (session.ts)\<close>

record SessionConfig =
  cfg_workspaceDir :: string
  cfg_model :: "string option"
  cfg_providerConfig :: "jsval option"
  cfg_timeout :: "int option"
  cfg_portStart :: "int option"

text \<open>
  The private fields. \<open>sm_client = None\<close> is \<^verbatim>\<open>null\<close>; the close function is
  described by what calling it does, as above.
\<close>

record SessionManager =
  sm_client :: "unit option"
  sm_serverClose :: "error option option"
  sm_sessionId :: "string option"
  sm_config :: SessionConfig

definition createSessionManager :: "SessionConfig \<Rightarrow> SessionManager" where
  "createSessionManager c = \<lparr>sm_client = None, sm_serverClose = None, sm_sessionId = None, sm_config = c\<rparr>"

text \<open>\<^verbatim>\<open>init\<close>, lines 55--90: the result, the object afterwards, the requests issued.\<close>

definition init :: "SessionManager \<Rightarrow> Runtime \<Rightarrow> (error + string) \<times> SessionManager \<times> call list" where
  "init sm rt =
     (if sm_client sm \<noteq> None then (Inl AlreadyInitialized, sm, [])
      else
        (let log0 = [CreateOpencode
                       (case cfg_timeout (sm_config sm) of None \<Rightarrow> 120000 | Some t \<Rightarrow> t)
                       (Some (case cfg_portStart (sm_config sm) of None \<Rightarrow> 4100 | Some p \<Rightarrow> p))
                       (opencodeConfig (cfg_model (sm_config sm)) (cfg_providerConfig (sm_config sm)))]
         in case createOpencode_result rt of
              Some e \<Rightarrow> (Inl e, sm, log0)
            | None \<Rightarrow>
                (let sm1 = sm\<lparr>sm_client := Some (), sm_serverClose := Some (close_result rt)\<rparr>;
                     log1 = log0 @ [SessionCreate (cfg_workspaceDir (sm_config sm))]
                 in case session_create_result rt of
                      Inl e \<Rightarrow> (Inl e, sm1, log1)
                    | Inr None \<Rightarrow> (Inl FailedToCreateSession, sm1, log1)
                    | Inr (Some sid) \<Rightarrow> (Inr sid, sm1\<lparr>sm_sessionId := Some sid\<rparr>, log1))))"

text \<open>\<^verbatim>\<open>close\<close>, lines 109--118.\<close>

definition close :: "SessionManager \<Rightarrow> (error + unit) \<times> SessionManager \<times> call list" where
  "close sm =
     (case release (sm_serverClose sm) of
        (r, closing) \<Rightarrow>
          (r, sm\<lparr>sm_client := None, sm_serverClose := None, sm_sessionId := None\<rparr>, closing))"

section \<open>Notions used in the statements\<close>

text \<open>
  An event the filter lets through: a truthy stream item whose session
  identifier, read as the specification describes, does not name another
  session.
\<close>

definition accepts :: "string \<Rightarrow> jsval \<Rightarrow> bool" where
  "accepts sid event = (truthy event \<and> \<not> foreign_session (spec_session_id event) sid)"

text \<open>
  A \<^verbatim>\<open>"message.part.updated"\<close> event whose part has type \<^verbatim>\<open>"text"\<close>, and the
  text it carries (the empty string when the part has none).
\<close>

definition is_text_update :: "jsval \<Rightarrow> bool" where
  "is_text_update event =
     (field event ''type'' = JStr ''message.part.updated'' \<and>
      field (field (field event ''properties'') ''part'') ''type'' = JStr ''text'')"

definition carried_text :: "jsval \<Rightarrow> jsval" where
  "carried_text event =
     nullish_or (field (field (field event ''properties'') ''part'') ''text'') (JStr [])"

text \<open>The text carried by the last text update of a sequence, \<open>start\<close> without one.\<close>

definition last_text :: "jsval \<Rightarrow> jsval list \<Rightarrow> jsval" where
  "last_text start events =
     (case filter is_text_update events of
        [] \<Rightarrow> start
      | e # es \<Rightarrow> carried_text (last (e # es)))"

text \<open>
  The usage record written for an assistant message with the token object
  \<open>tokens\<close>.
\<close>

definition upd_usage :: "jsval \<Rightarrow> Usage" where
  "upd_usage tokens =
    \<lparr>inputTokens = nullish_or (field tokens ''input'') (JNum 0),
     outputTokens = nullish_or (field tokens ''output'') (JNum 0),
     totalTokens = js_plus (nullish_or (field tokens ''input'') (JNum 0))
                     (nullish_or (field tokens ''output'') (JNum 0))\<rparr>"

text \<open>
  A terminal event for the session: accepted, of type \<^verbatim>\<open>"session.idle"\<close> or
  \<^verbatim>\<open>"session.status"\<close>, with a properties bag whose \<^verbatim>\<open>status\<close> is missing (falsy)
  or has type \<^verbatim>\<open>"idle"\<close>.
\<close>

definition is_terminal :: "string \<Rightarrow> jsval \<Rightarrow> bool" where
  "is_terminal sid event =
     (truthy event \<and>
      \<not> foreign_session (spec_session_id event) sid \<and>
      (field event ''type'' = JStr ''session.idle'' \<or>
       field event ''type'' = JStr ''session.status'') \<and>
      \<not> nullish (field event ''properties'') \<and>
      (\<not> truthy (field (field event ''properties'') ''status'') \<or>
       field (field (field event ''properties'') ''status'') ''type'' = JStr ''idle''))"

text \<open>
  An event after which the loop goes on to the next one: the body neither
  breaks nor throws. (Which of the three happens does not depend on the
  accumulated state.)
\<close>

definition continues :: "string \<Rightarrow> jsval \<Rightarrow> bool" where
  "continues sid event = (map_sum id fst (process_event sid initial_state event) = Inr False)"

text \<open>Well-formed events and a cooperative runtime, for concrete runs.\<close>

definition text_part_event :: "string \<Rightarrow> string \<Rightarrow> jsval" where
  "text_part_event sid body =
     JObj [(''type'', JStr ''message.part.updated''),
           (''properties'',
              JObj [(''sessionID'', JStr sid),
                    (''part'', JObj [(''type'', JStr ''text''), (''text'', JStr body)])])]"

definition usage_event :: "string \<Rightarrow> int \<Rightarrow> int \<Rightarrow> jsval" where
  "usage_event sid inp outp =
     JObj [(''type'', JStr ''message.updated''),
           (''properties'',
              JObj [(''info'',
                 JObj [(''sessionID'', JStr sid), (''role'', JStr ''assistant''),
                       (''tokens'', JObj [(''input'', JNum inp), (''output'', JNum outp)])])])]"

definition idle_event :: "string \<Rightarrow> jsval" where
  "idle_event sid =
     JObj [(''type'', JStr ''session.idle''), (''properties'', JObj [(''sessionID'', JStr sid)])]"

definition example_options :: "bool option \<Rightarrow> CompleteOptions" where
  "example_options signal =
     \<lparr>model = None, workspaceDir = ''/work'', messages = None, prompt = Some ''hi'',
      systemPrompt = None, timeout = None, providerConfig = None, abortSignal = signal\<rparr>"

definition example_runtime :: "stream_step list \<Rightarrow> error option \<Rightarrow> Runtime" where
  "example_runtime steps settled =
     \<lparr>createOpencode_result = None, close_result = None,
      session_create_result = Inr (Some ''ses_1''),
      subscribe_result = Inr steps, prompt_result = settled,
      abort_while_awaiting_prompt = False\<rparr>"

definition example_messages :: "Message list" where
  "example_messages =
     [\<lparr>role = user, content = Plain ''a''\<rparr>,
      \<lparr>role = assistant, content = Plain ''x''\<rparr>,
      \<lparr>role = user, content = Structured [ImageContent (Some ''u'') None None]\<rparr>,
      \<lparr>role = user, content = Plain ''b''\<rparr>]"

definition example_result :: "string \<Rightarrow> CompleteResult" where
  "example_result body =
     \<lparr>res_text = JStr body, res_toolCalls = None, res_stopReason = end_turn,
      res_usage = \<lparr>inputTokens = JNum 0, outputTokens = JNum 0, totalTokens = JNum 0\<rparr>\<rparr>"

section \<open>Properties\<close>

subsection \<open>Property reads and the filter\<close>

lemma bind_err_Inr [simp]: "bind_err (Inr x) f = f x"
  by (simp add: bind_err_def)

lemma bind_err_Inl [simp]: "bind_err (Inl e) f = Inl e"
  by (simp add: bind_err_def)

lemma get_prop_truthy: "truthy v \<Longrightarrow> get_prop v k = Inr (field v k)"
  by (cases v) simp_all

lemma get_prop_not_nullish: "\<not> nullish v \<Longrightarrow> get_prop v k = Inr (field v k)"
  by (cases v) simp_all

lemma get_prop_nullish: "nullish v \<Longrightarrow> get_prop v k = Inl TypeError"
  by (cases v) simp_all

lemma get_prop_opt_field: "get_prop_opt v k = Inr (field v k)"
  by (cases v) (simp_all add: get_prop_opt_def)

lemma field_falsy: "\<not> truthy v \<Longrightarrow> field v k = JUndefined"
  by (cases v) simp_all

lemma field_not_object: "\<not> typeof_object v \<Longrightarrow> field v k = JUndefined"
  by (cases v) simp_all

lemma extractSessionId_spec:
  "truthy event \<Longrightarrow> extractSessionId event = Inr (spec_session_id event)"
proof -
  assume t: "truthy event"
  let ?p = "field event ''properties''"
  let ?i = "field ?p ''info''"
  show ?thesis
  proof (cases "truthy ?p")
    case False
    with t show ?thesis
      by (simp add: extractSessionId_def spec_session_id_def get_prop_truthy field_falsy)
  next
    case True
    have nested: "(if truthy ?i \<and> typeof_object ?i
           then bind_err (get_prop ?i ''sessionID'')
                  (\<lambda>nested. case nested of JStr s \<Rightarrow> Inr (Some s) | _ \<Rightarrow> Inr None)
           else Inr None) = Inr (as_string (field ?i ''sessionID''))"
    proof (cases "truthy ?i \<and> typeof_object ?i")
      case True
      then show ?thesis
        by (cases "field ?i ''sessionID''") (simp_all add: get_prop_truthy)
    next
      case False
      then have "field ?i ''sessionID'' = JUndefined"
        using field_falsy field_not_object by blast
      with False show ?thesis by auto
    qed
    from t True show ?thesis
      by (cases "field ?p ''sessionID''")
         (simp_all add: extractSessionId_def spec_session_id_def get_prop_truthy nested)
  qed
qed

lemma event_filter_truthy:
  "truthy event \<Longrightarrow>
     event_filter sessionId event = Inr (\<not> foreign_session (spec_session_id event) sessionId)"
  by (simp add: event_filter_def extractSessionId_spec)

lemma process_event_falsy: "\<not> truthy event \<Longrightarrow> process_event sid st event = Inr (False, st)"
  by (simp add: process_event_def event_filter_def)

subsection \<open>One iteration of the loop body\<close>

lemma process_event_terminal:
  "is_terminal sid event \<Longrightarrow> process_event sid st event = Inr (True, st)"
  by (auto simp: is_terminal_def process_event_def event_filter_truthy get_prop_truthy
        get_prop_not_nullish on_session_status_def)

lemma process_event_unrecognised:
  "field event ''type'' \<noteq> JStr ''message.part.updated'' \<Longrightarrow>
   field event ''type'' \<noteq> JStr ''message.updated'' \<Longrightarrow>
   field event ''type'' \<noteq> JStr ''session.idle'' \<Longrightarrow>
   field event ''type'' \<noteq> JStr ''session.status'' \<Longrightarrow>
     process_event sid st event = Inr (False, st)"
proof (cases "truthy event")
  case True
  assume "field event ''type'' \<noteq> JStr ''message.part.updated''"
    "field event ''type'' \<noteq> JStr ''message.updated''"
    "field event ''type'' \<noteq> JStr ''session.idle''"
    "field event ''type'' \<noteq> JStr ''session.status''"
  with True show ?thesis
    by (simp add: process_event_def event_filter_truthy get_prop_truthy)
next
  case False
  then show ?thesis by (rule process_event_falsy)
qed

lemma on_part_updated_field:
  "on_part_updated st event =
     (if nullish (field event ''properties'') then Inl TypeError
      else if field (field (field event ''properties'') ''part'') ''type'' = JStr ''text''
        then Inr (False, st\<lparr>responseText :=
               nullish_or (field (field (field event ''properties'') ''part'') ''text'') (JStr [])\<rparr>)
      else Inr (False, st))" if "truthy event"
proof (cases "nullish (field event ''properties'')")
  case True
  with that show ?thesis
    by (simp add: on_part_updated_def get_prop_truthy get_prop_nullish)
next
  case False
  let ?part = "field (field event ''properties'') ''part''"
  show ?thesis
  proof (cases "field ?part ''type'' = JStr ''text''")
    case True
    then have "\<not> nullish ?part" by (cases ?part) auto
    with that False True show ?thesis
      by (simp add: on_part_updated_def get_prop_truthy get_prop_not_nullish get_prop_opt_field)
  next
    case no: False
    with that False show ?thesis
      by (simp add: on_part_updated_def get_prop_truthy get_prop_not_nullish get_prop_opt_field)
  qed
qed

lemma on_message_updated_field:
  "on_message_updated st event =
     (if nullish (field event ''properties'') then Inl TypeError
      else if field (field (field event ''properties'') ''info'') ''role'' = JStr ''assistant'' \<and>
              truthy (field (field (field event ''properties'') ''info'') ''tokens'')
        then Inr (False, st\<lparr>usage :=
               upd_usage (field (field (field event ''properties'') ''info'') ''tokens'')\<rparr>)
      else Inr (False, st))" if "truthy event"
proof (cases "nullish (field event ''properties'')")
  case True
  with that show ?thesis
    by (simp add: on_message_updated_def get_prop_truthy get_prop_nullish)
next
  case False
  let ?info = "field (field event ''properties'') ''info''"
  show ?thesis
  proof (cases "field ?info ''role'' = JStr ''assistant''")
    case True
    then have "\<not> nullish ?info" by (cases ?info) auto
    with that False True show ?thesis
      by (simp add: on_message_updated_def get_prop_truthy get_prop_not_nullish
            get_prop_opt_field upd_usage_def)
  next
    case no: False
    with that False show ?thesis
      by (simp add: on_message_updated_def get_prop_truthy get_prop_not_nullish get_prop_opt_field)
  qed
qed

lemma on_session_status_field:
  "on_session_status st event =
     (if nullish (field event ''properties'') then Inl TypeError
      else if \<not> truthy (field (field event ''properties'') ''status'') \<or>
              field (field (field event ''properties'') ''status'') ''type'' = JStr ''idle''
        then Inr (True, st)
      else Inr (False, st))" if "truthy event"
proof (cases "nullish (field event ''properties'')")
  case True
  with that show ?thesis
    by (simp add: on_session_status_def get_prop_truthy get_prop_nullish)
next
  case False
  with that show ?thesis
    by (simp add: on_session_status_def get_prop_truthy get_prop_not_nullish)
qed

lemma event_filter_accepts: "event_filter sid event = Inr (accepts sid event)"
  by (cases "truthy event") (simp_all add: event_filter_truthy accepts_def, simp add: event_filter_def)

lemma process_event_cases:
  "process_event sid st event =
     (if \<not> accepts sid event then Inr (False, st)
      else if field event ''type'' = JStr ''message.part.updated'' then on_part_updated st event
      else if field event ''type'' = JStr ''message.updated'' then on_message_updated st event
      else if field event ''type'' = JStr ''session.idle'' \<or>
              field event ''type'' = JStr ''session.status'' then on_session_status st event
      else Inr (False, st))"
proof (cases "accepts sid event")
  case True
  then have "truthy event" by (simp add: accepts_def)
  with True show ?thesis
    by (simp add: process_event_def event_filter_accepts get_prop_truthy)
next
  case False
  then show ?thesis by (simp add: process_event_def event_filter_accepts)
qed

lemmas handler_fields = on_part_updated_field on_message_updated_field on_session_status_field

lemma process_event_keeps_toolCalls:
  assumes "process_event sid st event = Inr (b, st')"
  shows "toolCalls st' = toolCalls st \<and> stopReason st' = stopReason st"
proof (cases "accepts sid event")
  case True
  then have "truthy event" by (simp add: accepts_def)
  with assms True show ?thesis
    by (auto simp: process_event_cases handler_fields split: if_splits)
next
  case False
  with assms show ?thesis by (simp add: process_event_cases)
qed

lemma process_event_text:
  assumes "process_event sid st event = Inr (b, st')"
  shows "responseText st' =
       (if accepts sid event \<and> is_text_update event
        then carried_text event else responseText st)"
proof (cases "accepts sid event")
  case True
  then have "truthy event" by (simp add: accepts_def)
  with assms True show ?thesis
    by (auto simp: process_event_cases handler_fields is_text_update_def carried_text_def
          split: if_splits)
next
  case False
  with assms show ?thesis by (simp add: process_event_cases)
qed

text \<open>
  Whether the body breaks, goes on or throws does not depend on the accumulated
  state.
\<close>

lemma process_event_control:
  "map_sum id fst (process_event sid st event) = map_sum id fst (process_event sid st0 event)"
proof (cases "accepts sid event")
  case True
  then have "truthy event" by (simp add: accepts_def)
  with True show ?thesis
    by (simp add: process_event_cases handler_fields)
next
  case False
  then show ?thesis by (simp add: process_event_cases)
qed

subsection \<open>The loop\<close>

lemma continues_step:
  assumes "continues sid event"
  shows "\<exists>st'. process_event sid st event = Inr (False, st')"
proof -
  have "map_sum id fst (process_event sid st event) = Inr False"
    using assms process_event_control [of sid st event initial_state]
    by (simp add: continues_def)
  then show ?thesis
    by (cases "process_event sid st event") auto
qed

lemma event_loop_aborted:
  "event_loop sid linked True st steps =
     \<lparr>outcome = Inr st, aborted_at_exit = True, handled = []\<rparr>"
proof (induction steps)
  case Nil
  show ?case by simp
next
  case (Cons step steps)
  then show ?case by (cases step) (simp_all add: loop_catch_def)
qed

lemma last_text_Nil: "last_text start [] = start"
  by (simp add: last_text_def)

lemma last_text_Cons:
  "last_text start (e # es) = last_text (if is_text_update e then carried_text e else start) es"
  by (cases "filter is_text_update es") (simp_all add: last_text_def)

lemma event_loop_text:
  "outcome (event_loop sid linked ab st steps) = Inr st' \<Longrightarrow>
     responseText st' = last_text (responseText st) (handled (event_loop sid linked ab st steps))"
proof (induction steps arbitrary: ab st)
  case Nil
  then show ?case by (simp add: last_text_Nil)
next
  case (Cons step steps)
  show ?case
  proof (cases step)
    case ExternalAbort
    with Cons show ?thesis by simp
  next
    case (StreamThrow err)
    with Cons.prems show ?thesis
      by (simp add: loop_catch_def last_text_Nil split: if_splits)
  next
    case (Yield event)
    show ?thesis
    proof (cases ab)
      case True
      with Yield Cons.prems show ?thesis by (simp add: last_text_Nil)
    next
      case False
      show ?thesis
      proof (cases "process_event sid st event")
        case (Inl err)
        with Yield False Cons.prems show ?thesis by (simp add: loop_catch_def)
      next
        case (Inr res)
        obtain stop st1 where res: "res = (stop, st1)" by (cases res)
        have rt_eq: "responseText st1 =
            (if accepts sid event \<and> is_text_update event
             then carried_text event else responseText st)"
          using Inr res by (simp add: process_event_text)
        show ?thesis
        proof (cases stop)
          case True
          with Yield False Inr res Cons.prems rt_eq show ?thesis
            by (simp add: event_filter_accepts last_text_Nil last_text_Cons)
        next
          case continue: False
          let ?r = "event_loop sid linked False st1 steps"
          from Yield False Inr res continue Cons.prems
          have "outcome ?r = Inr st'" by (simp add: Let_def)
          then have "responseText st' = last_text (responseText st1) (handled ?r)"
            by (rule Cons.IH)
          with Yield False Inr res continue rt_eq show ?thesis
            by (simp add: event_filter_accepts Let_def last_text_Cons)
        qed
      qed
    qed
  qed
qed

lemma event_loop_terminal:
  assumes "is_terminal sid event"
  shows "outcome (event_loop sid linked ab st (pre @ Yield event # post)) =
           outcome (event_loop sid linked ab st pre) \<and>
         aborted_at_exit (event_loop sid linked ab st (pre @ Yield event # post)) =
           aborted_at_exit (event_loop sid linked ab st pre)"
proof (induction pre arbitrary: ab st)
  case Nil
  from assms show ?case by (simp add: process_event_terminal)
next
  case (Cons step pre)
  show ?case
  proof (cases step)
    case ExternalAbort
    with Cons show ?thesis by simp
  next
    case (StreamThrow err)
    then show ?thesis by simp
  next
    case (Yield e)
    show ?thesis
    proof (cases "process_event sid st e")
      case (Inl err)
      with Yield show ?thesis by simp
    next
      case (Inr res)
      obtain stop st1 where "res = (stop, st1)" by (cases res)
      with Yield Inr Cons.IH [of False st1] show ?thesis by (simp add: Let_def)
    qed
  qed
qed

lemma event_loop_keeps_toolCalls:
  "outcome (event_loop sid linked ab st steps) = Inr st' \<Longrightarrow>
     toolCalls st' = toolCalls st \<and> stopReason st' = stopReason st"
proof (induction steps arbitrary: ab st)
  case Nil
  then show ?case by auto
next
  case (Cons step steps)
  show ?case
  proof (cases step)
    case ExternalAbort
    with Cons show ?thesis by simp
  next
    case (StreamThrow err)
    with Cons.prems show ?thesis by (auto simp: loop_catch_def split: if_splits)
  next
    case (Yield e)
    show ?thesis
    proof (cases "process_event sid st e")
      case (Inl err)
      with Yield Cons.prems show ?thesis by (auto simp: loop_catch_def split: if_splits)
    next
      case (Inr res)
      obtain stop st1 where res: "res = (stop, st1)" by (cases res)
      have keep: "toolCalls st1 = toolCalls st \<and> stopReason st1 = stopReason st"
        using Inr res by (simp add: process_event_keeps_toolCalls)
      show ?thesis
      proof (cases "ab \<or> stop")
        case True
        with Yield Inr res keep Cons.prems show ?thesis by (auto split: if_splits)
      next
        case False
        with Yield Inr res Cons.prems
        have "outcome (event_loop sid linked False st1 steps) = Inr st'"
          by (simp add: Let_def)
        then have "toolCalls st' = toolCalls st1 \<and> stopReason st' = stopReason st1"
          by (rule Cons.IH)
        with keep show ?thesis by simp
      qed
    qed
  qed
qed

lemma event_loop_running:
  assumes "\<forall>e \<in> set es. continues sid e"
  shows "\<exists>st'. outcome (event_loop sid linked False st (map Yield es)) = Inr st' \<and>
           aborted_at_exit (event_loop sid linked False st (map Yield es)) = False \<and>
           (\<forall>rest. outcome (event_loop sid linked False st (map Yield es @ rest)) =
                     outcome (event_loop sid linked False st' rest) \<and>
                   aborted_at_exit (event_loop sid linked False st (map Yield es @ rest)) =
                     aborted_at_exit (event_loop sid linked False st' rest))"
  using assms
proof (induction es arbitrary: st)
  case Nil
  show ?case by simp
next
  case (Cons e es)
  then have "continues sid e" by simp
  then obtain st1 where step: "process_event sid st e = Inr (False, st1)"
    using continues_step by blast
  from Cons.prems have "\<forall>e \<in> set es. continues sid e" by simp
  from Cons.IH [OF this, of st1] obtain st' where
    "outcome (event_loop sid linked False st1 (map Yield es)) = Inr st'"
    "aborted_at_exit (event_loop sid linked False st1 (map Yield es)) = False"
    "\<forall>rest. outcome (event_loop sid linked False st1 (map Yield es @ rest)) =
                     outcome (event_loop sid linked False st' rest) \<and>
                   aborted_at_exit (event_loop sid linked False st1 (map Yield es @ rest)) =
                     aborted_at_exit (event_loop sid linked False st' rest)"
    by blast
  with step show ?case by (simp add: Let_def)
qed

subsection \<open>The call as a whole\<close>

lemma release_acquired: "release (Some c) = (Inr (), [ServerClose])"
  by (simp add: release_def swallow_def split: option.splits)

lemma release_nothing: "release None = (Inr (), [])"
  by (simp add: release_def swallow_def)

lemma complete_running:
  assumes "abortSignal options \<noteq> Some True"
    and "createOpencode_result rt = None"
    and "session_create_result rt = Inr (Some sid)"
    and "subscribe_result rt = Inr steps"
  shows "fst (complete options rt) =
     (case outcome (event_loop sid (has_listener options) False initial_state steps) of
        Inl e \<Rightarrow> Inl e
      | Inr st \<Rightarrow>
          (case await_prompt
                  (aborted_at_exit (event_loop sid (has_listener options) False initial_state steps) \<or>
                   (has_listener options \<and> abort_while_awaiting_prompt rt))
                  (prompt_result rt) of
             Inl e \<Rightarrow> Inl e
           | Inr u \<Rightarrow> Inr (finalize st)))"
  using assms
  by (simp add: complete_def complete_try_def Let_def release_acquired js_finally_def
        split: sum.splits)

lemma complete_Inr:
  assumes "fst (complete options rt) = Inr result"
  shows "abortSignal options \<noteq> Some True \<and> createOpencode_result rt = None \<and>
     (\<exists>sid steps st. session_create_result rt = Inr (Some sid) \<and>
        subscribe_result rt = Inr steps \<and>
        outcome (event_loop sid (has_listener options) False initial_state steps) = Inr st \<and>
        result = finalize st)"
proof -
  from assms have sig: "abortSignal options \<noteq> Some True"
    by (auto simp: complete_def)
  have created: "createOpencode_result rt = None"
  proof (rule ccontr)
    assume "createOpencode_result rt \<noteq> None"
    then obtain e where "createOpencode_result rt = Some e" by auto
    with sig assms show False
      by (simp add: complete_def complete_try_def Let_def release_nothing js_finally_def)
  qed
  obtain sid where sess: "session_create_result rt = Inr (Some sid)"
  proof (cases "session_create_result rt")
    case (Inl e)
    with sig created assms show ?thesis
      by (simp add: complete_def complete_try_def Let_def release_acquired js_finally_def)
  next
    case (Inr d)
    with sig created assms that show ?thesis
      by (cases d)
         (simp_all add: complete_def complete_try_def Let_def release_acquired js_finally_def)
  qed
  obtain steps where sub: "subscribe_result rt = Inr steps"
  proof (cases "subscribe_result rt")
    case (Inl e)
    with sig created sess assms show ?thesis
      by (simp add: complete_def complete_try_def Let_def release_acquired js_finally_def)
  next
    case (Inr d)
    with that show ?thesis by simp
  qed
  from assms complete_running [OF sig created sess sub]
  have "\<exists>st. outcome (event_loop sid (has_listener options) False initial_state steps) = Inr st \<and>
        result = finalize st"
    by (auto split: sum.splits)
  with sig created sess sub show ?thesis by blast
qed

subsection \<open>The event filter (C1)\<close>

text \<open>
  C1, as stated, fails: an event whose \<^verbatim>\<open>properties.sessionID\<close> is the empty string
  yields the identifier \<^verbatim>\<open>""\<close>, which is neither absent nor equal to the target
  \<^verbatim>\<open>"ses_1"\<close>, and the event is accepted all the same, because the test of
  line 165 is a truthiness test.
\<close>

theorem filter_empty_session_id_counterexample:
  "\<not> (event_filter ''ses_1''
        (JObj [(''type'', JStr ''message.part.updated''),
               (''properties'', JObj [(''sessionID'', JStr [])])]) = Inr True
      \<longleftrightarrow>
        (extractSessionId
           (JObj [(''type'', JStr ''message.part.updated''),
                  (''properties'', JObj [(''sessionID'', JStr [])])]) = Inr None \<or>
         extractSessionId
           (JObj [(''type'', JStr ''message.part.updated''),
                  (''properties'', JObj [(''sessionID'', JStr [])])]) = Inr (Some ''ses_1'')))"
  by (simp add: event_filter_def extractSessionId_def foreign_session_def)

text \<open>
  C1 (amended): the filter never throws; it accepts a stream item exactly when
  the item is truthy and the identifier extracted from it is absent, the empty
  string, or equal to the target. For every event, \<^verbatim>\<open>extractSessionId\<close> returns the
  string at \<^verbatim>\<open>properties.sessionID\<close> if there is one, failing that the string at
  \<^verbatim>\<open>properties.info.sessionID\<close>, and \<^verbatim>\<open>undefined\<close> if neither is a string; such
  an event is never filtered out.
\<close>

theorem event_filter_accepts_iff:
  "event_filter sid event =
     Inr (truthy event \<and>
          (spec_session_id event = None \<or> spec_session_id event = Some [] \<or>
           spec_session_id event = Some sid)) \<and>
   (truthy event \<longrightarrow> extractSessionId event = Inr (spec_session_id event))"
  by (auto simp: event_filter_accepts accepts_def extractSessionId_spec foreign_session_def
        split: option.splits)

text \<open>
  An event whose top-level identifier is a number and whose nested one is
  \<^verbatim>\<open>"ses_1"\<close>: accepted for \<^verbatim>\<open>"ses_1"\<close>, skipped for \<^verbatim>\<open>"ses_2"\<close>.
\<close>

theorem event_filter_accepts_iff_witness:
  "truthy (JObj [(''type'', JStr ''message.updated''),
                 (''properties'', JObj [(''sessionID'', JNum 7),
                    (''info'', JObj [(''sessionID'', JStr ''ses_1'')])])]) \<and>
   extractSessionId (JObj [(''type'', JStr ''message.updated''),
                 (''properties'', JObj [(''sessionID'', JNum 7),
                    (''info'', JObj [(''sessionID'', JStr ''ses_1'')])])]) = Inr (Some ''ses_1'') \<and>
   event_filter ''ses_1'' (JObj [(''type'', JStr ''message.updated''),
                 (''properties'', JObj [(''sessionID'', JNum 7),
                    (''info'', JObj [(''sessionID'', JStr ''ses_1'')])])]) = Inr True \<and>
   event_filter ''ses_2'' (JObj [(''type'', JStr ''message.updated''),
                 (''properties'', JObj [(''sessionID'', JNum 7),
                    (''info'', JObj [(''sessionID'', JStr ''ses_1'')])])]) = Inr False"
  using event_filter_accepts_iff [of "''ses_1''" "JObj [(''type'', JStr ''message.updated''),
                 (''properties'', JObj [(''sessionID'', JNum 7),
                    (''info'', JObj [(''sessionID'', JStr ''ses_1'')])])]"]
    event_filter_accepts_iff [of "''ses_2''" "JObj [(''type'', JStr ''message.updated''),
                 (''properties'', JObj [(''sessionID'', JNum 7),
                    (''info'', JObj [(''sessionID'', JStr ''ses_1'')])])]"]
  by (simp add: spec_session_id_def)

subsection \<open>Last write wins (C2)\<close>

lemma handled_accepted:
  "e \<in> set (handled (event_loop sid linked ab st steps)) \<Longrightarrow> accepts sid e"
proof (induction steps arbitrary: ab st)
  case Nil
  then show ?case by simp
next
  case (Cons step steps)
  show ?case
  proof (cases step)
    case ExternalAbort
    with Cons show ?thesis by simp
  next
    case (StreamThrow err)
    with Cons.prems show ?thesis by simp
  next
    case (Yield event)
    show ?thesis
    proof (cases "process_event sid st event")
      case (Inl err)
      with Yield Cons.prems show ?thesis by (simp split: if_splits)
    next
      case (Inr res)
      obtain stop st1 where res: "res = (stop, st1)" by (cases res)
      with Yield Inr Cons.prems
      have "ab = False" "(accepts sid event \<and> e = event) \<or>
          (\<not> stop \<and> e \<in> set (handled (event_loop sid linked False st1 steps)))"
        by (auto simp: Let_def event_filter_accepts split: if_splits)
      with Cons.IH show ?thesis by blast
    qed
  qed
qed

text \<open>
  C2: when a completion call returns, its text is the text carried by the last
  accepted \<^verbatim>\<open>"message.part.updated"\<close> event with a part of type \<^verbatim>\<open>"text"\<close> among
  the events the loop handled (an overwrite, not a concatenation), and the
  empty string if it handled no such event. Every handled event was accepted
  by the filter.
\<close>

theorem last_text_wins:
  assumes "session_create_result rt = Inr (Some sid)"
    and "subscribe_result rt = Inr steps"
    and "fst (complete options rt) = Inr result"
  shows "res_text result =
           last_text (JStr [])
             (handled (event_loop sid (has_listener options) False initial_state steps)) \<and>
         (\<forall>e \<in> set (handled (event_loop sid (has_listener options) False initial_state steps)).
            accepts sid e)"
proof -
  from complete_Inr [OF assms(3)] assms(1,2) obtain st where
    "outcome (event_loop sid (has_listener options) False initial_state steps) = Inr st"
    "result = finalize st"
    by auto
  then have "res_text result =
      last_text (responseText initial_state)
        (handled (event_loop sid (has_listener options) False initial_state steps))"
    using event_loop_text by (simp add: finalize_def)
  then show ?thesis
    by (simp add: initial_state_def handled_accepted)
qed

text \<open>
  Text parts \<^verbatim>\<open>"a"\<close>, \<^verbatim>\<open>"ab"\<close>, \<^verbatim>\<open>"abc"\<close> followed by the idle event: the text
  returned is \<^verbatim>\<open>"abc"\<close>.
\<close>

theorem last_text_wins_witness:
  "fst (complete (example_options None)
            (example_runtime
               [Yield (text_part_event ''ses_1'' ''a''),
                Yield (text_part_event ''ses_1'' ''ab''),
                Yield (text_part_event ''ses_1'' ''abc''),
                Yield (idle_event ''ses_1'')] None)) = Inr (example_result ''abc'') \<and>
   last_text (JStr [])
     (handled (event_loop ''ses_1'' (has_listener (example_options None)) False initial_state
        [Yield (text_part_event ''ses_1'' ''a''),
         Yield (text_part_event ''ses_1'' ''ab''),
         Yield (text_part_event ''ses_1'' ''abc''),
         Yield (idle_event ''ses_1'')])) = JStr ''abc''"
proof -
  let ?steps = "[Yield (text_part_event ''ses_1'' ''a''),
                Yield (text_part_event ''ses_1'' ''ab''),
                Yield (text_part_event ''ses_1'' ''abc''),
                Yield (idle_event ''ses_1'')]"
  have run: "fst (complete (example_options None) (example_runtime ?steps None)) =
      Inr (example_result ''abc'')"
    by code_simp
  have "session_create_result (example_runtime ?steps None) = Inr (Some ''ses_1'')"
    and "subscribe_result (example_runtime ?steps None) = Inr ?steps"
    by (simp_all add: example_runtime_def)
  from last_text_wins [OF this run] run show ?thesis
    by (simp add: example_result_def)
qed

subsection \<open>Terminal detection (C3)\<close>

lemma complete_try_running:
  assumes "createOpencode_result rt = None"
    and "session_create_result rt = Inr (Some sid)"
    and "subscribe_result rt = Inr steps"
  shows "complete_try options rt lk =
     ((case outcome (event_loop sid lk False initial_state steps) of
         Inl e \<Rightarrow> Inl e
       | Inr st \<Rightarrow>
          (case await_prompt
                  (aborted_at_exit (event_loop sid lk False initial_state steps) \<or>
                   (lk \<and> abort_while_awaiting_prompt rt))
                  (prompt_result rt) of
             Inl e \<Rightarrow> Inl e
           | Inr u \<Rightarrow> Inr (finalize st))),
      Some (close_result rt),
      [CreateOpencode (case timeout options of None \<Rightarrow> 120000 | Some t \<Rightarrow> t) None
         (opencodeConfig (model options) (providerConfig options)),
       SessionCreate (workspaceDir options), EventSubscribe,
       SessionPrompt sid (build_parts options)])"
  using assms by (simp add: complete_try_def Let_def split: sum.splits)

lemma complete_depends_on_loop_exit:
  assumes "outcome (event_loop sid (has_listener options) False initial_state steps) =
           outcome (event_loop sid (has_listener options) False initial_state steps')"
    and "aborted_at_exit (event_loop sid (has_listener options) False initial_state steps) =
         aborted_at_exit (event_loop sid (has_listener options) False initial_state steps')"
    and "session_create_result rt = Inr (Some sid)"
  shows "complete options (rt\<lparr>subscribe_result := Inr steps\<rparr>) =
         complete options (rt\<lparr>subscribe_result := Inr steps'\<rparr>)"
proof (cases "createOpencode_result rt")
  case None
  have "complete_try options (rt\<lparr>subscribe_result := Inr steps\<rparr>) (has_listener options) =
        complete_try options (rt\<lparr>subscribe_result := Inr steps'\<rparr>) (has_listener options)"
    using None assms
    by (simp add: complete_try_running [where sid = sid and steps = steps]
          complete_try_running [where sid = sid and steps = steps'] split: sum.splits)
  then show ?thesis by (simp add: complete_def)
next
  case (Some e)
  then show ?thesis by (simp add: complete_def complete_try_def)
qed

text \<open>
  Terminal detection for events that carry a properties bag. An accepted
  \<^verbatim>\<open>"session.idle"\<close> or \<^verbatim>\<open>"session.status"\<close> event whose status is missing or of
  type \<^verbatim>\<open>"idle"\<close> ends the loop the way the end of the stream would (a
  \<^verbatim>\<open>break\<close>, no error): the call returns, and issues, exactly what it would if
  the stream had stopped just before that event, whatever follows it in the
  stream. No other event with a properties bag ends the loop: a status event
  whose status is present and of another type, a text or message update (which
  only write the text or the usage), an event of a type the loop does not know
  and an event the filter rejects all let the loop go on.
\<close>

theorem terminal_event_ends_loop:
  "(is_terminal sid event \<and> session_create_result rt = Inr (Some sid) \<longrightarrow>
      complete options (rt\<lparr>subscribe_result := Inr (pre @ Yield event # post)\<rparr>) =
      complete options (rt\<lparr>subscribe_result := Inr pre\<rparr>)) \<and>
   (accepts sid event \<and>
    (field event ''type'' = JStr ''session.idle'' \<or>
     field event ''type'' = JStr ''session.status'') \<and>
    truthy (field (field event ''properties'') ''status'') \<and>
    field (field (field event ''properties'') ''status'') ''type'' \<noteq> JStr ''idle'' \<longrightarrow>
      process_event sid st event = Inr (False, st)) \<and>
   (accepts sid event \<and> field event ''type'' = JStr ''message.part.updated'' \<and>
    \<not> nullish (field event ''properties'') \<longrightarrow>
      process_event sid st event =
        Inr (False, if is_text_update event
                    then st\<lparr>responseText := carried_text event\<rparr> else st)) \<and>
   (accepts sid event \<and> field event ''type'' = JStr ''message.updated'' \<and>
    \<not> nullish (field event ''properties'') \<longrightarrow>
      process_event sid st event =
        Inr (False,
             if field (field (field event ''properties'') ''info'') ''role'' = JStr ''assistant'' \<and>
                truthy (field (field (field event ''properties'') ''info'') ''tokens'')
             then st\<lparr>usage :=
                    upd_usage (field (field (field event ''properties'') ''info'') ''tokens'')\<rparr>
             else st)) \<and>
   (\<not> accepts sid event \<longrightarrow> process_event sid st event = Inr (False, st)) \<and>
   (field event ''type'' \<noteq> JStr ''message.part.updated'' \<and>
    field event ''type'' \<noteq> JStr ''message.updated'' \<and>
    field event ''type'' \<noteq> JStr ''session.idle'' \<and>
    field event ''type'' \<noteq> JStr ''session.status'' \<longrightarrow>
      process_event sid st event = Inr (False, st))"
proof (intro conjI impI)
  assume u: "accepts sid event \<and> field event ''type'' = JStr ''message.part.updated'' \<and>
    \<not> nullish (field event ''properties'')"
  then have "truthy event" by (simp add: accepts_def)
  with u show "process_event sid st event =
        Inr (False, if is_text_update event
                    then st\<lparr>responseText := carried_text event\<rparr> else st)"
    by (simp add: process_event_cases on_part_updated_field is_text_update_def carried_text_def)
next
  assume u: "accepts sid event \<and> field event ''type'' = JStr ''message.updated'' \<and>
    \<not> nullish (field event ''properties'')"
  then have "truthy event" by (simp add: accepts_def)
  with u show "process_event sid st event =
        Inr (False,
             if field (field (field event ''properties'') ''info'') ''role'' = JStr ''assistant'' \<and>
                truthy (field (field (field event ''properties'') ''info'') ''tokens'')
             then st\<lparr>usage :=
                    upd_usage (field (field (field event ''properties'') ''info'') ''tokens'')\<rparr>
             else st)"
    by (simp add: process_event_cases on_message_updated_field)
next
  assume "\<not> accepts sid event"
  then show "process_event sid st event = Inr (False, st)"
    by (simp add: process_event_cases)
next
  assume b: "accepts sid event \<and>
    (field event ''type'' = JStr ''session.idle'' \<or>
     field event ''type'' = JStr ''session.status'') \<and>
    truthy (field (field event ''properties'') ''status'') \<and>
    field (field (field event ''properties'') ''status'') ''type'' \<noteq> JStr ''idle''"
  then have "truthy event" by (simp add: accepts_def)
  moreover from b have "\<not> nullish (field event ''properties'')"
    by (cases "field event ''properties''") auto
  ultimately show "process_event sid st event = Inr (False, st)"
    using b by (auto simp: process_event_cases on_session_status_field)
next
  assume a: "is_terminal sid event \<and> session_create_result rt = Inr (Some sid)"
  then have "is_terminal sid event" ..
  from event_loop_terminal [OF this] a
  show "complete options (rt\<lparr>subscribe_result := Inr (pre @ Yield event # post)\<rparr>) =
      complete options (rt\<lparr>subscribe_result := Inr pre\<rparr>)"
    by (intro complete_depends_on_loop_exit) simp_all
next
  assume "field event ''type'' \<noteq> JStr ''message.part.updated'' \<and>
    field event ''type'' \<noteq> JStr ''message.updated'' \<and>
    field event ''type'' \<noteq> JStr ''session.idle'' \<and>
    field event ''type'' \<noteq> JStr ''session.status''"
  then show "process_event sid st event = Inr (False, st)"
    by (simp add: process_event_unrecognised)
qed

text \<open>
  The idle event after the text \<^verbatim>\<open>"a"\<close> hides a later text and a later stream
  error; a status event of type \<^verbatim>\<open>"busy"\<close> and a \<^verbatim>\<open>"server.connected"\<close> event
  are passed over.
\<close>

theorem terminal_event_ends_loop_witness:
  "is_terminal ''ses_1'' (idle_event ''ses_1'') \<and>
   session_create_result (example_runtime [] None) = Inr (Some ''ses_1'') \<and>
   complete (example_options None)
     (example_runtime
        [Yield (text_part_event ''ses_1'' ''a''), Yield (idle_event ''ses_1''),
         Yield (text_part_event ''ses_1'' ''late''), StreamThrow (Remote ''closed'')] None) =
   complete (example_options None) (example_runtime [Yield (text_part_event ''ses_1'' ''a'')] None) \<and>
   fst (complete (example_options None)
          (example_runtime [Yield (text_part_event ''ses_1'' ''a'')] None)) =
     Inr (example_result ''a'') \<and>
   accepts ''ses_1''
     (JObj [(''type'', JStr ''session.status''),
            (''properties'', JObj [(''sessionID'', JStr ''ses_1''),
                                   (''status'', JObj [(''type'', JStr ''busy'')])])]) \<and>
   process_event ''ses_1'' initial_state
     (JObj [(''type'', JStr ''session.status''),
            (''properties'', JObj [(''sessionID'', JStr ''ses_1''),
                                   (''status'', JObj [(''type'', JStr ''busy'')])])]) =
     Inr (False, initial_state) \<and>
   accepts ''ses_1'' (text_part_event ''ses_1'' ''a'') \<and>
   process_event ''ses_1'' initial_state (text_part_event ''ses_1'' ''a'') =
     Inr (False, initial_state\<lparr>responseText := JStr ''a''\<rparr>) \<and>
   accepts ''ses_1'' (usage_event ''ses_1'' 3 4) \<and>
   process_event ''ses_1'' initial_state (usage_event ''ses_1'' 3 4) =
     Inr (False, initial_state\<lparr>usage :=
       \<lparr>inputTokens = JNum 3, outputTokens = JNum 4, totalTokens = JNum 7\<rparr>\<rparr>) \<and>
   \<not> accepts ''ses_1'' (idle_event ''ses_2'') \<and>
   process_event ''ses_1'' initial_state (idle_event ''ses_2'') = Inr (False, initial_state) \<and>
   field (JObj [(''type'', JStr ''server.connected''), (''properties'', JObj [])]) ''type''
     \<noteq> JStr ''session.idle'' \<and>
   process_event ''ses_1'' initial_state
     (JObj [(''type'', JStr ''server.connected''), (''properties'', JObj [])]) =
     Inr (False, initial_state)"
proof -
  have t: "is_terminal ''ses_1'' (idle_event ''ses_1'')"
    by (simp add: is_terminal_def idle_event_def spec_session_id_def foreign_session_def)
  have s: "session_create_result (example_runtime [] None) = Inr (Some ''ses_1'')"
    by (simp add: example_runtime_def)
  have r: "example_runtime [] None\<lparr>subscribe_result := Inr steps\<rparr> = example_runtime steps None"
    for steps by (simp add: example_runtime_def)
  have run: "fst (complete (example_options None)
          (example_runtime [Yield (text_part_event ''ses_1'' ''a'')] None)) =
     Inr (example_result ''a'')"
    by code_simp
  have busy: "accepts ''ses_1''
     (JObj [(''type'', JStr ''session.status''),
            (''properties'', JObj [(''sessionID'', JStr ''ses_1''),
                                   (''status'', JObj [(''type'', JStr ''busy'')])])])"
    by (simp add: accepts_def spec_session_id_def foreign_session_def)
  from terminal_event_ends_loop [where sid = "''ses_1''" and event = "idle_event ''ses_1''"
      and rt = "example_runtime [] None" and options = "example_options None"
      and pre = "[Yield (text_part_event ''ses_1'' ''a'')]"
      and post = "[Yield (text_part_event ''ses_1'' ''late''), StreamThrow (Remote ''closed'')]"]
    terminal_event_ends_loop [where sid = "''ses_1''" and st = initial_state
      and event = "JObj [(''type'', JStr ''server.connected''), (''properties'', JObj [])]"]
    terminal_event_ends_loop [where sid = "''ses_1''" and st = initial_state
      and event = "JObj [(''type'', JStr ''session.status''),
            (''properties'', JObj [(''sessionID'', JStr ''ses_1''),
                                   (''status'', JObj [(''type'', JStr ''busy'')])])]"]
    t s run busy
  have main: "complete (example_options None)
     (example_runtime
        [Yield (text_part_event ''ses_1'' ''a''), Yield (idle_event ''ses_1''),
         Yield (text_part_event ''ses_1'' ''late''), StreamThrow (Remote ''closed'')] None) =
     complete (example_options None) (example_runtime [Yield (text_part_event ''ses_1'' ''a'')] None)"
    and busy_on: "process_event ''ses_1'' initial_state
     (JObj [(''type'', JStr ''session.status''),
            (''properties'', JObj [(''sessionID'', JStr ''ses_1''),
                                   (''status'', JObj [(''type'', JStr ''busy'')])])]) =
     Inr (False, initial_state)"
    and other: "process_event ''ses_1'' initial_state
     (JObj [(''type'', JStr ''server.connected''), (''properties'', JObj [])]) =
     Inr (False, initial_state)"
    by (simp_all add: r)
  have a1: "accepts ''ses_1'' (text_part_event ''ses_1'' ''a'')"
    and a2: "accepts ''ses_1'' (usage_event ''ses_1'' 3 4)"
    and a3: "\<not> accepts ''ses_1'' (idle_event ''ses_2'')"
    by (simp_all add: accepts_def spec_session_id_def foreign_session_def
          text_part_event_def usage_event_def idle_event_def)
  have v: "field (text_part_event ''ses_1'' ''a'') ''type'' = JStr ''message.part.updated''"
    "\<not> nullish (field (text_part_event ''ses_1'' ''a'') ''properties'')"
    "is_text_update (text_part_event ''ses_1'' ''a'')"
    "carried_text (text_part_event ''ses_1'' ''a'') = JStr ''a''"
    "field (usage_event ''ses_1'' 3 4) ''type'' = JStr ''message.updated''"
    "\<not> nullish (field (usage_event ''ses_1'' 3 4) ''properties'')"
    "field (field (field (usage_event ''ses_1'' 3 4) ''properties'') ''info'') ''role'' =
       JStr ''assistant''"
    "truthy (field (field (field (usage_event ''ses_1'' 3 4) ''properties'') ''info'') ''tokens'')"
    "upd_usage (field (field (field (usage_event ''ses_1'' 3 4) ''properties'') ''info'') ''tokens'') =
       \<lparr>inputTokens = JNum 3, outputTokens = JNum 4, totalTokens = JNum 7\<rparr>"
    by (simp_all add: text_part_event_def usage_event_def is_text_update_def carried_text_def
          nullish_or_def upd_usage_def js_plus_def)
  from terminal_event_ends_loop [where sid = "''ses_1''" and st = initial_state
      and event = "text_part_event ''ses_1'' ''a''"] a1 v
  have text_on: "process_event ''ses_1'' initial_state (text_part_event ''ses_1'' ''a'') =
     Inr (False, initial_state\<lparr>responseText := JStr ''a''\<rparr>)"
    by simp
  from terminal_event_ends_loop [where sid = "''ses_1''" and st = initial_state
      and event = "usage_event ''ses_1'' 3 4"] a2 v
  have usage_on: "process_event ''ses_1'' initial_state (usage_event ''ses_1'' 3 4) =
     Inr (False, initial_state\<lparr>usage :=
       \<lparr>inputTokens = JNum 3, outputTokens = JNum 4, totalTokens = JNum 7\<rparr>\<rparr>)"
    by simp
  from terminal_event_ends_loop [where sid = "''ses_1''" and st = initial_state
      and event = "idle_event ''ses_2''"] a3
  have foreign_on: "process_event ''ses_1'' initial_state (idle_event ''ses_2'') =
     Inr (False, initial_state)"
    by simp
  from t s main run busy busy_on a1 text_on a2 usage_on a3 foreign_on other
  show ?thesis by simp
qed

text \<open>
  C3 fails on the code for an event without a properties bag. The event
  \<^verbatim>\<open>{ type: "session.idle" }\<close> is accepted by the filter (\<^verbatim>\<open>extractSessionId\<close>
  guards against the missing bag and returns \<^verbatim>\<open>undefined\<close>) and its status is
  absent, so by C3 it ends the loop with a \<^verbatim>\<open>break\<close>; but line 183 reads
  \<^verbatim>\<open>.status\<close> from the missing bag without such a guard, the TypeError is
  rethrown by the \<^verbatim>\<open>catch\<close> of the loop, and the call is rejected, where the same
  event with an empty bag makes it return the accumulated text.
\<close>

theorem idle_event_without_properties_throws:
  "event_filter ''ses_1'' (JObj [(''type'', JStr ''session.idle'')]) = Inr True \<and>
   extractSessionId (JObj [(''type'', JStr ''session.idle'')]) = Inr None \<and>
   field (field (JObj [(''type'', JStr ''session.idle'')]) ''properties'') ''status'' = JUndefined \<and>
   process_event ''ses_1'' (initial_state\<lparr>responseText := JStr ''a''\<rparr>)
     (JObj [(''type'', JStr ''session.idle'')]) = Inl TypeError \<and>
   complete (example_options None)
     (example_runtime
        [Yield (text_part_event ''ses_1'' ''a''),
         Yield (JObj [(''type'', JStr ''session.idle'')])] None) =
     (Inl TypeError,
      [CreateOpencode 120000 None [], SessionCreate ''/work'', EventSubscribe,
       SessionPrompt ''ses_1'' [TextPart ''hi''], ServerClose]) \<and>
   fst (complete (example_options None)
     (example_runtime
        [Yield (text_part_event ''ses_1'' ''a''),
         Yield (JObj [(''type'', JStr ''session.idle''), (''properties'', JObj [])])] None)) =
     Inr (example_result ''a'')"
  by code_simp

subsection \<open>The already-aborted fast path (C5)\<close>

text \<open>
  C5: with a signal that is already aborted the call fails with the Aborted
  error and issues no request at all: neither \<^verbatim>\<open>createOpencode\<close> nor
  \<^verbatim>\<open>session.create\<close> is attempted.
\<close>

theorem pre_aborted_fast_path:
  "abortSignal options = Some True \<Longrightarrow> complete options rt = (Inl Aborted, [])"
  by (simp add: complete_def)

theorem pre_aborted_fast_path_witness:
  "abortSignal (example_options (Some True)) = Some True \<and>
   complete (example_options (Some True)) (example_runtime [] None) = (Inl Aborted, [])"
proof -
  have a: "abortSignal (example_options (Some True)) = Some True"
    by (simp add: example_options_def)
  from pre_aborted_fast_path [OF a] a show ?thesis by simp
qed

subsection \<open>Cleanup (C4)\<close>

lemma complete_try_log_no_close: "ServerClose \<notin> set (snd (snd (complete_try options rt lk)))"
  by (simp add: complete_try_def Let_def split: option.splits sum.splits)

lemma complete_try_serverClose:
  "fst (snd (complete_try options rt lk)) =
     (if createOpencode_result rt = None then Some (close_result rt) else None)"
  by (simp add: complete_try_def Let_def split: option.splits sum.splits)

lemma complete_try_ignores_close:
  "fst (complete_try options (rt\<lparr>close_result := c\<rparr>) lk) = fst (complete_try options rt lk) \<and>
   snd (snd (complete_try options (rt\<lparr>close_result := c\<rparr>) lk)) =
     snd (snd (complete_try options rt lk))"
  by (simp add: complete_try_def Let_def split: option.splits sum.splits)

lemma complete_unfold:
  "abortSignal options \<noteq> Some True \<Longrightarrow>
     complete options rt =
       (fst (complete_try options rt (has_listener options)),
        snd (snd (complete_try options rt (has_listener options))) @
          (if createOpencode_result rt = None then [ServerClose] else []))"
proof -
  assume sig: "abortSignal options \<noteq> Some True"
  obtain body sc lg where t: "complete_try options rt (has_listener options) = (body, sc, lg)"
    by (cases "complete_try options rt (has_listener options)") auto
  with complete_try_serverClose [of options rt "has_listener options"]
  have sc: "sc = (if createOpencode_result rt = None then Some (close_result rt) else None)"
    by simp
  from sig t sc show ?thesis
    by (simp add: complete_def release_acquired release_nothing js_finally_def)
qed

text \<open>
  C4, as stated, fails on one exit path: with a signal that is already aborted
  the call throws before the \<^verbatim>\<open>try\<close> statement is entered, so the \<^verbatim>\<open>finally\<close>
  block does not run and no release is attempted.
\<close>

theorem release_on_every_path_counterexample:
  "fst (complete (example_options (Some True)) (example_runtime [] None)) = Inl Aborted \<and>
   ServerClose \<notin> set (snd (complete (example_options (Some True)) (example_runtime [] None)))"
  by (simp add: complete_def example_options_def)

text \<open>
  C4 (amended): once \<^verbatim>\<open>createOpencode\<close> has succeeded, every exit of \<^verbatim>\<open>complete\<close>
  (normal return, thrown error, cancellation) calls \<^verbatim>\<open>server.close\<close> exactly
  once, as the last request of the call; when the call fails before the runtime
  exists (signal already aborted, \<^verbatim>\<open>createOpencode\<close> rejected) no close is called.
  Whether \<^verbatim>\<open>server.close\<close> throws changes neither the result or error of the call
  nor its requests, and the call ends with the completion of its \<^verbatim>\<open>try\<close> block.
  \<^verbatim>\<open>SessionManager.close\<close> never throws, and called twice it calls
  \<^verbatim>\<open>server.close\<close> at most once: the second call issues nothing.
\<close>

theorem release_once_when_acquired:
  "(abortSignal options \<noteq> Some True \<and> createOpencode_result rt = None \<longrightarrow>
      (\<exists>body. snd (complete options rt) = body @ [ServerClose] \<and> ServerClose \<notin> set body)) \<and>
   (abortSignal options = Some True \<or> createOpencode_result rt \<noteq> None \<longrightarrow>
      ServerClose \<notin> set (snd (complete options rt))) \<and>
   complete options (rt\<lparr>close_result := c\<rparr>) = complete options rt \<and>
   (abortSignal options \<noteq> Some True \<longrightarrow>
      fst (complete options rt) = fst (complete_try options rt (has_listener options))) \<and>
   fst (close sm) = Inr () \<and>
   fst (close (fst (snd (close sm)))) = Inr () \<and>
   snd (snd (close (fst (snd (close sm))))) = [] \<and>
   length (filter (\<lambda>c. c = ServerClose)
             (snd (snd (close sm)) @ snd (snd (close (fst (snd (close sm))))))) \<le> 1"
proof (intro conjI impI)
  assume "abortSignal options \<noteq> Some True \<and> createOpencode_result rt = None"
  then show "\<exists>body. snd (complete options rt) = body @ [ServerClose] \<and> ServerClose \<notin> set body"
    using complete_try_log_no_close [of options rt "has_listener options"]
    by (simp add: complete_unfold)
next
  assume "abortSignal options = Some True \<or> createOpencode_result rt \<noteq> None"
  then show "ServerClose \<notin> set (snd (complete options rt))"
    using complete_try_log_no_close [of options rt "has_listener options"]
    by (cases "abortSignal options = Some True") (auto simp: complete_unfold, simp add: complete_def)
next
  show "complete options (rt\<lparr>close_result := c\<rparr>) = complete options rt"
    using complete_try_ignores_close [where options = options and rt = rt and c = c
        and lk = "has_listener options"]
    by (cases "abortSignal options = Some True") (simp_all add: complete_unfold, simp add: complete_def)
next
  assume "abortSignal options \<noteq> Some True"
  then show "fst (complete options rt) = fst (complete_try options rt (has_listener options))"
    by (simp add: complete_unfold)
next
  show "fst (close sm) = Inr ()"
    by (cases "sm_serverClose sm") (simp_all add: close_def release_acquired release_nothing)
next
  show "fst (close (fst (snd (close sm)))) = Inr ()"
    by (cases "sm_serverClose sm") (simp_all add: close_def release_acquired release_nothing)
next
  show "snd (snd (close (fst (snd (close sm))))) = []"
    by (cases "sm_serverClose sm") (simp_all add: close_def release_acquired release_nothing)
next
  show "length (filter (\<lambda>c. c = ServerClose)
             (snd (snd (close sm)) @ snd (snd (close (fst (snd (close sm))))))) \<le> 1"
    by (cases "sm_serverClose sm") (simp_all add: close_def release_acquired release_nothing)
qed

text \<open>
  A run that fails in the stream while \<^verbatim>\<open>server.close\<close> throws as well: the
  stream's error is what the call reports, after one closing request. A run in
  which \<^verbatim>\<open>createOpencode\<close> is rejected closes nothing. A session manager that
  was initialised closes its server on the first \<^verbatim>\<open>close\<close> only.
\<close>

theorem release_once_when_acquired_witness:
  "abortSignal (example_options None) \<noteq> Some True \<and>
   createOpencode_result (example_runtime [StreamThrow (Remote ''net'')] None) = None \<and>
   complete (example_options None)
     ((example_runtime [StreamThrow (Remote ''net'')] None)\<lparr>close_result := Some (Remote ''boom'')\<rparr>) =
     (Inl (Remote ''net''),
      [CreateOpencode 120000 None [], SessionCreate ''/work'', EventSubscribe,
       SessionPrompt ''ses_1'' [TextPart ''hi''], ServerClose]) \<and>
   createOpencode_result
     ((example_runtime [] None)\<lparr>createOpencode_result := Some (Remote ''spawn'')\<rparr>) \<noteq> None \<and>
   ServerClose \<notin> set (snd (complete (example_options None)
     ((example_runtime [] None)\<lparr>createOpencode_result := Some (Remote ''spawn'')\<rparr>))) \<and>
   snd (snd (close (fst (snd (init
     (createSessionManager \<lparr>cfg_workspaceDir = ''/work'', cfg_model = None,
        cfg_providerConfig = None, cfg_timeout = None, cfg_portStart = None\<rparr>)
     ((example_runtime [] None)\<lparr>close_result := Some (Remote ''boom'')\<rparr>)))))) = [ServerClose] \<and>
   snd (snd (close (fst (snd (close (fst (snd (init
     (createSessionManager \<lparr>cfg_workspaceDir = ''/work'', cfg_model = None,
        cfg_providerConfig = None, cfg_timeout = None, cfg_portStart = None\<rparr>)
     ((example_runtime [] None)\<lparr>close_result := Some (Remote ''boom'')\<rparr>))))))))) = []"
proof -
  let ?rt = "example_runtime [StreamThrow (Remote ''net'')] None"
  let ?rt' = "(example_runtime [] None)\<lparr>createOpencode_result := Some (Remote ''spawn'')\<rparr>"
  let ?sm = "fst (snd (init
     (createSessionManager \<lparr>cfg_workspaceDir = ''/work'', cfg_model = None,
        cfg_providerConfig = None, cfg_timeout = None, cfg_portStart = None\<rparr>)
     ((example_runtime [] None)\<lparr>close_result := Some (Remote ''boom'')\<rparr>)))"
  have a: "abortSignal (example_options None) \<noteq> Some True"
    by (simp add: example_options_def)
  have b: "createOpencode_result ?rt = None"
    by (simp add: example_runtime_def)
  have c: "createOpencode_result ?rt' \<noteq> None"
    by simp
  have run: "complete (example_options None) ?rt =
     (Inl (Remote ''net''),
      [CreateOpencode 120000 None [], SessionCreate ''/work'', EventSubscribe,
       SessionPrompt ''ses_1'' [TextPart ''hi''], ServerClose])"
    by code_simp
  have first: "snd (snd (close ?sm)) = [ServerClose]"
    by code_simp
  from release_once_when_acquired [where options = "example_options None" and rt = ?rt
      and c = "Some (Remote ''boom'')" and sm = ?sm]
    release_once_when_acquired [where options = "example_options None" and rt = ?rt']
    a b c run first
  show ?thesis by simp
qed

subsection \<open>Suppression of errors after cancellation (C6)\<close>

text \<open>
  C6: an error of the stream iteration, like an exception raised in the loop
  body, is suppressed exactly when the internal controller is aborted at that
  moment, and is rethrown unchanged otherwise; a rejection of the prompt promise
  is suppressed exactly when the controller is aborted when the promise
  settles, and otherwise becomes the \<^verbatim>\<open>"Prompt failed"\<close> error, whatever the
  cause was. A call that got as far as the loop therefore ends with the loop's
  error if it has one, else with \<^verbatim>\<open>"Prompt failed"\<close> or the result.
\<close>

theorem error_suppression_policy:
  "outcome (event_loop sid lk ab st (StreamThrow err # rest)) = (if ab then Inr st else Inl err) \<and>
   (process_event sid st event = Inl err \<longrightarrow>
      outcome (event_loop sid lk ab st (Yield event # rest)) = (if ab then Inr st else Inl err)) \<and>
   await_prompt ab (Some cause) = (if ab then Inr () else Inl PromptFailed) \<and>
   await_prompt ab None = Inr () \<and>
   (abortSignal options \<noteq> Some True \<and> createOpencode_result rt = None \<and>
    session_create_result rt = Inr (Some sid) \<and> subscribe_result rt = Inr steps \<longrightarrow>
      fst (complete options rt) =
        (case outcome (event_loop sid (has_listener options) False initial_state steps) of
           Inl e \<Rightarrow> Inl e
         | Inr s \<Rightarrow>
            (case prompt_result rt of
               None \<Rightarrow> Inr (finalize s)
             | Some cause \<Rightarrow>
                 if aborted_at_exit
                      (event_loop sid (has_listener options) False initial_state steps) \<or>
                    (has_listener options \<and> abort_while_awaiting_prompt rt)
                 then Inr (finalize s) else Inl PromptFailed)))"
proof (intro conjI impI)
  show "outcome (event_loop sid lk ab st (StreamThrow err # rest)) = (if ab then Inr st else Inl err)"
    by (simp add: loop_catch_def)
next
  assume "process_event sid st event = Inl err"
  then show "outcome (event_loop sid lk ab st (Yield event # rest)) = (if ab then Inr st else Inl err)"
    by (simp add: loop_catch_def)
next
  show "await_prompt ab (Some cause) = (if ab then Inr () else Inl PromptFailed)"
    by (simp add: await_prompt_def)
next
  show "await_prompt ab None = Inr ()"
    by (simp add: await_prompt_def)
next
  assume "abortSignal options \<noteq> Some True \<and> createOpencode_result rt = None \<and>
    session_create_result rt = Inr (Some sid) \<and> subscribe_result rt = Inr steps"
  then show "fst (complete options rt) =
        (case outcome (event_loop sid (has_listener options) False initial_state steps) of
           Inl e \<Rightarrow> Inl e
         | Inr s \<Rightarrow>
            (case prompt_result rt of
               None \<Rightarrow> Inr (finalize s)
             | Some cause \<Rightarrow>
                 if aborted_at_exit
                      (event_loop sid (has_listener options) False initial_state steps) \<or>
                    (has_listener options \<and> abort_while_awaiting_prompt rt)
                 then Inr (finalize s) else Inl PromptFailed))"
    by (auto simp: complete_running [where sid = sid and steps = steps] await_prompt_def
          split: sum.splits option.splits)
qed

text \<open>
  A text update without a properties bag raises a TypeError in the body, which
  is rethrown; a rejected prompt after a clean idle exit gives
  \<^verbatim>\<open>"Prompt failed"\<close>; after the signal has fired, the stream's error and the
  rejection are both swallowed and the call returns.
\<close>

theorem error_suppression_policy_witness:
  "process_event ''ses_1'' initial_state (JObj [(''type'', JStr ''message.part.updated'')]) =
     Inl TypeError \<and>
   outcome (event_loop ''ses_1'' True False initial_state
     [Yield (JObj [(''type'', JStr ''message.part.updated'')])]) = Inl TypeError \<and>
   abortSignal (example_options (Some False)) \<noteq> Some True \<and>
   createOpencode_result (example_runtime [Yield (idle_event ''ses_1'')] (Some (Remote ''rejected''))) = None \<and>
   session_create_result (example_runtime [Yield (idle_event ''ses_1'')] (Some (Remote ''rejected''))) =
     Inr (Some ''ses_1'') \<and>
   subscribe_result (example_runtime [Yield (idle_event ''ses_1'')] (Some (Remote ''rejected''))) =
     Inr [Yield (idle_event ''ses_1'')] \<and>
   fst (complete (example_options (Some False))
          (example_runtime [Yield (idle_event ''ses_1'')] (Some (Remote ''rejected'')))) =
     Inl PromptFailed \<and>
   fst (complete (example_options (Some False))
          (example_runtime [ExternalAbort, StreamThrow (Remote ''net'')] (Some (Remote ''rejected'')))) =
     Inr (example_result [])"
proof -
  let ?e = "JObj [(''type'', JStr ''message.part.updated'')]"
  let ?rt = "example_runtime [Yield (idle_event ''ses_1'')] (Some (Remote ''rejected''))"
  let ?rt' = "example_runtime [ExternalAbort, StreamThrow (Remote ''net'')] (Some (Remote ''rejected''))"
  have p: "process_event ''ses_1'' initial_state ?e = Inl TypeError"
    by code_simp
  have h: "abortSignal (example_options (Some False)) \<noteq> Some True \<and>
      createOpencode_result ?rt = None \<and>
      session_create_result ?rt = Inr (Some ''ses_1'') \<and>
      subscribe_result ?rt = Inr [Yield (idle_event ''ses_1'')]"
    by (simp add: example_options_def example_runtime_def)
  have h': "abortSignal (example_options (Some False)) \<noteq> Some True \<and>
      createOpencode_result ?rt' = None \<and>
      session_create_result ?rt' = Inr (Some ''ses_1'') \<and>
      subscribe_result ?rt' = Inr [ExternalAbort, StreamThrow (Remote ''net'')]"
    by (simp add: example_options_def example_runtime_def)
  have l: "outcome (event_loop ''ses_1'' (has_listener (example_options (Some False))) False
        initial_state [Yield (idle_event ''ses_1'')]) = Inr initial_state"
     "aborted_at_exit (event_loop ''ses_1'' (has_listener (example_options (Some False))) False
        initial_state [Yield (idle_event ''ses_1'')]) = False"
     "outcome (event_loop ''ses_1'' (has_listener (example_options (Some False))) False
        initial_state [ExternalAbort, StreamThrow (Remote ''net'')]) = Inr initial_state"
     "aborted_at_exit (event_loop ''ses_1'' (has_listener (example_options (Some False))) False
        initial_state [ExternalAbort, StreamThrow (Remote ''net'')]) = True"
     "prompt_result ?rt = Some (Remote ''rejected'')"
     "prompt_result ?rt' = Some (Remote ''rejected'')"
     "abort_while_awaiting_prompt ?rt = False"
     "finalize initial_state = example_result []"
    by code_simp+
  note body = error_suppression_policy [where sid = "''ses_1''" and st = initial_state
      and event = ?e and err = TypeError and lk = True and ab = False and rest = "[]"]
  note idle = error_suppression_policy [where sid = "''ses_1''"
      and options = "example_options (Some False)" and rt = ?rt
      and steps = "[Yield (idle_event ''ses_1'')]"]
  note fired = error_suppression_policy [where sid = "''ses_1''"
      and options = "example_options (Some False)" and rt = ?rt'
      and steps = "[ExternalAbort, StreamThrow (Remote ''net'')]"]
  from body p
  have 1: "outcome (event_loop ''ses_1'' True False initial_state [Yield ?e]) = Inl TypeError"
    by (simp del: event_loop.simps)
  from idle h
  have 2: "fst (complete (example_options (Some False)) ?rt) = Inl PromptFailed"
    by (simp del: event_loop.simps add: l)
  from fired h'
  have 3: "fst (complete (example_options (Some False)) ?rt') = Inr (example_result [])"
    by (simp del: event_loop.simps add: l)
  from p h 1 2 3 show ?thesis by simp
qed

subsection \<open>Cancellation during the loop (C7)\<close>

text \<open>
  C7, as stated, fails: when the signal fires while the loop is running, the
  call does not end as an aborted call. It returns normally, with the text
  accumulated before the signal fired.
\<close>

theorem abort_mid_loop_counterexample:
  "fst (complete (example_options (Some False))
          (example_runtime
             [Yield (text_part_event ''ses_1'' ''a''), ExternalAbort,
              Yield (text_part_event ''ses_1'' ''ab''), Yield (idle_event ''ses_1'')] None)) =
     Inr (example_result ''a'') \<and>
   fst (complete (example_options (Some False))
          (example_runtime
             [Yield (text_part_event ''ses_1'' ''a''), ExternalAbort,
              Yield (text_part_event ''ses_1'' ''ab''), Yield (idle_event ''ses_1'')] None)) \<noteq>
     Inl Aborted"
  by code_simp

text \<open>
  C7 (amended): when the caller's signal fires while the loop is running (after
  events that each let the loop go on), the loop stops without processing
  anything further, neither a later error of the stream iteration nor a
  rejection of the prompt is surfaced, and the call returns normally with the
  Completion Result accumulated up to that point; no Aborted error is raised.
\<close>

theorem abort_mid_loop_returns_accumulated:
  assumes "abortSignal options = Some False"
    and "createOpencode_result rt = None"
    and "session_create_result rt = Inr (Some sid)"
    and "subscribe_result rt = Inr (map Yield es @ ExternalAbort # post)"
    and "\<forall>e \<in> set es. continues sid e"
  shows "\<exists>st. outcome (event_loop sid True False initial_state (map Yield es)) = Inr st \<and>
              fst (complete options rt) = Inr (finalize st)"
proof -
  from assms(1) have lk: "has_listener options" and sig: "abortSignal options \<noteq> Some True"
    by (simp_all add: has_listener_def)
  from event_loop_running [OF assms(5), of True initial_state] obtain st where
    st: "outcome (event_loop sid True False initial_state (map Yield es)) = Inr st"
    and rest: "\<And>rest. outcome (event_loop sid True False initial_state (map Yield es @ rest)) =
                     outcome (event_loop sid True False st rest) \<and>
                   aborted_at_exit (event_loop sid True False initial_state (map Yield es @ rest)) =
                     aborted_at_exit (event_loop sid True False st rest)"
    by blast
  have "outcome (event_loop sid True False initial_state (map Yield es @ ExternalAbort # post)) = Inr st"
    and "aborted_at_exit (event_loop sid True False initial_state (map Yield es @ ExternalAbort # post))"
    by (simp_all add: rest event_loop_aborted)
  with lk have "fst (complete options rt) = Inr (finalize st)"
    by (simp add: complete_running [OF sig assms(2) assms(3) assms(4)] await_prompt_def
          split: option.splits)
  with st show ?thesis by blast
qed

text \<open>
  The signal fires after the text \<^verbatim>\<open>"a"\<close>; the stream then fails and the prompt
  is rejected: the call returns the text \<^verbatim>\<open>"a"\<close>.
\<close>

theorem abort_mid_loop_returns_accumulated_witness:
  "abortSignal (example_options (Some False)) = Some False \<and>
   continues ''ses_1'' (text_part_event ''ses_1'' ''a'') \<and>
   fst (complete (example_options (Some False))
          (example_runtime
             (map Yield [text_part_event ''ses_1'' ''a''] @
                ExternalAbort # [StreamThrow (Remote ''net'')])
             (Some (Remote ''rejected'')))) = Inr (example_result ''a'')"
proof -
  let ?rt = "example_runtime
             (map Yield [text_part_event ''ses_1'' ''a''] @
                ExternalAbort # [StreamThrow (Remote ''net'')])
             (Some (Remote ''rejected''))"
  have a: "abortSignal (example_options (Some False)) = Some False"
    by (simp add: example_options_def)
  have b: "createOpencode_result ?rt = None"
    and c: "session_create_result ?rt = Inr (Some ''ses_1'')"
    and d: "subscribe_result ?rt = Inr (map Yield [text_part_event ''ses_1'' ''a''] @
                ExternalAbort # [StreamThrow (Remote ''net'')])"
    by (simp_all add: example_runtime_def)
  have e: "\<forall>e \<in> set [text_part_event ''ses_1'' ''a'']. continues ''ses_1'' e"
    by code_simp
  have f: "outcome (event_loop ''ses_1'' True False initial_state
             (map Yield [text_part_event ''ses_1'' ''a''])) = Inr s \<Longrightarrow>
           finalize s = example_result ''a''" for s
    by (auto simp: text_part_event_def process_event_cases accepts_def spec_session_id_def
          foreign_session_def handler_fields initial_state_def finalize_def example_result_def
          nullish_or_def)
  from abort_mid_loop_returns_accumulated [OF a b c d e] a e f
  show ?thesis by auto
qed

subsection \<open>The submitted parts (C8)\<close>

lemma complete_prompt_parts:
  "SessionPrompt s ps \<in> set (snd (complete options rt)) \<Longrightarrow> ps = build_parts options"
proof (cases "abortSignal options = Some True")
  case True
  assume "SessionPrompt s ps \<in> set (snd (complete options rt))"
  with True show ?thesis by (simp add: complete_def)
next
  case False
  assume "SessionPrompt s ps \<in> set (snd (complete options rt))"
  with False have "SessionPrompt s ps \<in> set (snd (snd (complete_try options rt (has_listener options))))"
    by (simp add: complete_unfold split: if_splits)
  then show ?thesis
    by (auto simp: complete_try_def Let_def split: option.splits sum.splits)
qed

lemma build_parts_system:
  "build_parts options =
     build_parts (options\<lparr>systemPrompt := None\<rparr>) @
       (if given (systemPrompt options)
        then [TextPart (''[System]: '' @ the (systemPrompt options))] else [])"
  by (simp add: build_parts_def Let_def given_def)

text \<open>
  C8, as stated, fails for a system prompt that is provided but empty: no part
  is appended for it, because line 133 tests the truthiness of the string.
\<close>

theorem empty_system_prompt_counterexample:
  "systemPrompt ((example_options None)\<lparr>systemPrompt := Some []\<rparr>) = Some [] \<and>
   build_parts ((example_options None)\<lparr>systemPrompt := Some []\<rparr>) = [TextPart ''hi'']"
  by (simp add: example_options_def build_parts_def given_def)

text \<open>
  C8 (amended): the parts handed to \<^verbatim>\<open>session.prompt\<close> are the content parts
  followed by the system part. The content parts are a single text part with
  the prompt when the prompt is a non-empty string; otherwise a single text
  part with the text synthesised from the messages when there are messages and
  that text is not empty; otherwise none. The synthesised text joins, with
  newlines, the contents of the messages of role user, where content that is
  not a plain string counts as the empty string and messages of other roles
  are skipped; it is empty when there is no message of role user. The system part, one text part with the prefix
  \<^verbatim>\<open>[System]: \<close>, comes last and exists exactly when the system prompt is a
  non-empty string.
\<close>

theorem prompt_parts:
  "(prompt options = Some p \<and> p \<noteq> [] \<longrightarrow>
      build_parts (options\<lparr>systemPrompt := None\<rparr>) = [TextPart p]) \<and>
   (\<not> given (prompt options) \<and> messages options = Some ms \<and> messages_text ms \<noteq> [] \<longrightarrow>
      build_parts (options\<lparr>systemPrompt := None\<rparr>) = [TextPart (messages_text ms)]) \<and>
   (\<not> given (prompt options) \<and>
    (messages options = None \<or> messages options = Some ms \<and> messages_text ms = []) \<longrightarrow>
      build_parts (options\<lparr>systemPrompt := None\<rparr>) = []) \<and>
   (systemPrompt options = Some sp \<and> sp \<noteq> [] \<longrightarrow>
      build_parts options =
        build_parts (options\<lparr>systemPrompt := None\<rparr>) @ [TextPart (''[System]: '' @ sp)]) \<and>
   (\<not> given (systemPrompt options) \<longrightarrow>
      build_parts options = build_parts (options\<lparr>systemPrompt := None\<rparr>)) \<and>
   (\<not> given (prompt options) \<and> messages options = Some ms \<and>
    filter (\<lambda>m. role m = user) ms = [] \<longrightarrow>
      build_parts (options\<lparr>systemPrompt := None\<rparr>) = []) \<and>
   messages_text [] = [] \<and>
   (filter (\<lambda>m. role m = user) ms = [] \<longrightarrow> messages_text ms = []) \<and>
   (role m \<noteq> user \<longrightarrow> messages_text (m # ms) = messages_text ms) \<and>
   (role m = user \<and> content m = Structured cs \<longrightarrow>
      messages_text (m # ms) = messages_text (m\<lparr>content := Plain []\<rparr> # ms)) \<and>
   (role m = user \<and> content m = Plain t \<longrightarrow>
      messages_text (m # ms) =
        (if filter (\<lambda>m. role m = user) ms = [] then t else t @ [CHR 0x0A] @ messages_text ms)) \<and>
   (SessionPrompt s ps \<in> set (snd (complete options rt)) \<longrightarrow> ps = build_parts options)"
proof (intro conjI impI)
  assume "prompt options = Some p \<and> p \<noteq> []"
  then show "build_parts (options\<lparr>systemPrompt := None\<rparr>) = [TextPart p]"
    by (simp add: build_parts_def given_def)
next
  assume "\<not> given (prompt options) \<and> messages options = Some ms \<and> messages_text ms \<noteq> []"
  then show "build_parts (options\<lparr>systemPrompt := None\<rparr>) = [TextPart (messages_text ms)]"
    by (simp add: build_parts_def given_def)
next
  assume "\<not> given (prompt options) \<and>
    (messages options = None \<or> messages options = Some ms \<and> messages_text ms = [])"
  then show "build_parts (options\<lparr>systemPrompt := None\<rparr>) = []"
    by (auto simp: build_parts_def given_def)
next
  assume "systemPrompt options = Some sp \<and> sp \<noteq> []"
  then show "build_parts options =
        build_parts (options\<lparr>systemPrompt := None\<rparr>) @ [TextPart (''[System]: '' @ sp)]"
    by (simp add: build_parts_system [of options] given_def)
next
  assume "\<not> given (systemPrompt options)"
  then show "build_parts options = build_parts (options\<lparr>systemPrompt := None\<rparr>)"
    by (simp add: build_parts_system [of options])
next
  assume "\<not> given (prompt options) \<and> messages options = Some ms \<and>
    filter (\<lambda>m. role m = user) ms = []"
  then show "build_parts (options\<lparr>systemPrompt := None\<rparr>) = []"
    by (simp add: build_parts_def given_def messages_text_def)
next
  show "messages_text [] = []"
    by (simp add: messages_text_def)
next
  assume "filter (\<lambda>m. role m = user) ms = []"
  then show "messages_text ms = []"
    by (simp add: messages_text_def)
next
  assume "role m \<noteq> user"
  then show "messages_text (m # ms) = messages_text ms"
    by (simp add: messages_text_def)
next
  assume "role m = user \<and> content m = Structured cs"
  then show "messages_text (m # ms) = messages_text (m\<lparr>content := Plain []\<rparr> # ms)"
    by (simp add: messages_text_def)
next
  assume a: "role m = user \<and> content m = Plain t"
  show "messages_text (m # ms) =
        (if filter (\<lambda>m. role m = user) ms = [] then t else t @ [CHR 0x0A] @ messages_text ms)"
  proof (cases "filter (\<lambda>m. role m = user) ms")
    case Nil
    with a show ?thesis by (simp add: messages_text_def)
  next
    case (Cons u us)
    with a show ?thesis by (simp add: messages_text_def)
  qed
next
  assume "SessionPrompt s ps \<in> set (snd (complete options rt))"
  then show "ps = build_parts options" by (rule complete_prompt_parts)
qed

text \<open>
  A prompt with a system prompt gives two parts, the system part last, and they
  are the parts submitted; four messages, two of them plain user messages and
  one a structured user message, give the single part \<^verbatim>\<open>"a\n\nb"\<close>; no prompt
  with no messages, with an empty list of messages or with an assistant message
  only gives no part.
\<close>

theorem prompt_parts_witness:
  "prompt ((example_options None)\<lparr>systemPrompt := Some ''be brief''\<rparr>) = Some ''hi'' \<and>
   build_parts ((example_options None)\<lparr>systemPrompt := Some ''be brief''\<rparr>) =
     [TextPart ''hi'', TextPart ''[System]: be brief''] \<and>
   SessionPrompt ''ses_1'' [TextPart ''hi'', TextPart ''[System]: be brief''] \<in>
     set (snd (complete ((example_options None)\<lparr>systemPrompt := Some ''be brief''\<rparr>)
                 (example_runtime [] None))) \<and>
   messages_text example_messages = ''a'' @ [CHR 0x0A] @ [CHR 0x0A] @ ''b'' \<and>
   build_parts ((example_options None)\<lparr>prompt := None, messages := Some example_messages\<rparr>) =
     [TextPart (''a'' @ [CHR 0x0A] @ [CHR 0x0A] @ ''b'')] \<and>
   build_parts ((example_options None)\<lparr>prompt := None\<rparr>) = [] \<and>
   build_parts ((example_options None)\<lparr>prompt := None, messages := Some []\<rparr>) = [] \<and>
   messages_text [\<lparr>role = assistant, content = Plain ''x''\<rparr>] = [] \<and>
   build_parts ((example_options None)\<lparr>prompt := None,
      messages := Some [\<lparr>role = assistant, content = Plain ''x''\<rparr>]\<rparr>) = []"
proof -
  let ?o4 = "(example_options None)\<lparr>prompt := None, messages := Some []\<rparr>"
  let ?o5 = "(example_options None)\<lparr>prompt := None,
      messages := Some [\<lparr>role = assistant, content = Plain ''x''\<rparr>]\<rparr>"
  have p4: "\<not> given (prompt ?o4) \<and> messages ?o4 = Some [] \<and>
      filter (\<lambda>m. role m = user) [] = ([] :: Message list)"
    and n4: "?o4\<lparr>systemPrompt := None\<rparr> = ?o4"
    by (simp_all add: example_options_def given_def)
  from prompt_parts [where options = ?o4 and ms = "[]"] p4
  have b4: "build_parts ?o4 = []"
    by (simp only: n4) simp
  have p5: "\<not> given (prompt ?o5) \<and>
      messages ?o5 = Some [\<lparr>role = assistant, content = Plain ''x''\<rparr>] \<and>
      filter (\<lambda>m. role m = user) [\<lparr>role = assistant, content = Plain ''x''\<rparr>] = []"
    and n5: "?o5\<lparr>systemPrompt := None\<rparr> = ?o5"
    by (simp_all add: example_options_def given_def)
  note i5 = prompt_parts [where options = ?o5
      and ms = "[\<lparr>role = assistant, content = Plain ''x''\<rparr>]"]
  from i5 p5 have b5: "build_parts ?o5 = []"
    by (simp only: n5) simp
  from i5 p5 have m5: "messages_text [\<lparr>role = assistant, content = Plain ''x''\<rparr>] = []"
    by simp
  let ?o1 = "(example_options None)\<lparr>systemPrompt := Some ''be brief''\<rparr>"
  let ?o2 = "(example_options None)\<lparr>prompt := None, messages := Some example_messages\<rparr>"
  let ?o3 = "(example_options None)\<lparr>prompt := None\<rparr>"
  let ?tail = "[\<lparr>role = assistant, content = Plain ''x''\<rparr>,
      \<lparr>role = user, content = Structured [ImageContent (Some ''u'') None None]\<rparr>,
      \<lparr>role = user, content = Plain ''b''\<rparr>]"
  have p1: "prompt ?o1 = Some ''hi'' \<and> ''hi'' \<noteq> []"
    and s1: "systemPrompt ?o1 = Some ''be brief'' \<and> ''be brief'' \<noteq> []"
    and n1: "?o1\<lparr>systemPrompt := None\<rparr> = example_options None"
    by (simp_all add: example_options_def)
  note i1 = prompt_parts [where options = ?o1 and p = "''hi''" and sp = "''be brief''"
      and rt = "example_runtime [] None" and s = "''ses_1''"
      and ps = "[TextPart ''hi'', TextPart ''[System]: be brief'']"]
  from i1 p1 s1 have b1: "build_parts ?o1 = [TextPart ''hi'', TextPart ''[System]: be brief'']"
    by (simp only: n1) simp
  have sent: "SessionPrompt ''ses_1'' [TextPart ''hi'', TextPart ''[System]: be brief''] \<in>
     set (snd (complete ?o1 (example_runtime [] None)))"
    by code_simp
  have mt: "messages_text example_messages = ''a'' @ [CHR 0x0A] @ [CHR 0x0A] @ ''b''"
    by code_simp
  have p2: "\<not> given (prompt ?o2) \<and> messages ?o2 = Some example_messages \<and>
      messages_text example_messages \<noteq> []"
    by (simp add: example_options_def given_def mt)
  have g2: "\<not> given (systemPrompt ?o2)" and n2: "?o2\<lparr>systemPrompt := None\<rparr> = ?o2"
    by (simp_all add: example_options_def given_def)
  note i2 = prompt_parts [where options = ?o2 and ms = example_messages]
  from i2 p2 g2 have b2: "build_parts ?o2 = [TextPart (messages_text example_messages)]"
    by (simp only: n2) simp
  have p3: "\<not> given (prompt ?o3) \<and> (messages ?o3 = None \<or> messages ?o3 = Some [] \<and> messages_text [] = [])"
    and g3: "\<not> given (systemPrompt ?o3)" and n3: "?o3\<lparr>systemPrompt := None\<rparr> = ?o3"
    by (simp_all add: example_options_def given_def)
  note i3 = prompt_parts [where options = ?o3 and ms = "[]"]
  from i3 p3 g3 have b3: "build_parts ?o3 = []"
    by (simp only: n3) simp
  from p1 b1 sent mt b2 b3 b4 m5 b5 show ?thesis by simp
qed

subsection \<open>The streaming adapter (C9)\<close>

lemma foldl_yield_tool_call:
  "foldl yield_tool_call acc tcs =
     acc @ concat (map (\<lambda>tc. [ToolCallStart (call_id tc) (call_name tc),
                        ToolCallDelta (call_id tc) (call_arguments tc),
                        ToolCallEnd (call_id tc) (call_name tc) (call_arguments tc)]) tcs)"
  by (induction tcs arbitrary: acc) (simp_all add: yield_tool_call_def)

lemma yields_unfold:
  "yields result =
     (if truthy (res_text result) then [TextEvent (res_text result)] else []) @
     concat (map (\<lambda>tc. [ToolCallStart (call_id tc) (call_name tc),
                        ToolCallDelta (call_id tc) (call_arguments tc),
                        ToolCallEnd (call_id tc) (call_name tc) (call_arguments tc)])
               (case res_toolCalls result of None \<Rightarrow> [] | Some tcs \<Rightarrow> tcs)) @
     [Done result]"
  by (simp add: yields_def Let_def foldl_yield_tool_call)

lemma no_done_in_triples:
  "filter is_done (concat (map (\<lambda>tc. [ToolCallStart (call_id tc) (call_name tc),
                        ToolCallDelta (call_id tc) (call_arguments tc),
                        ToolCallEnd (call_id tc) (call_name tc) (call_arguments tc)]) tcs)) = []"
  by (induction tcs) simp_all

text \<open>
  C9: for a Completion Result whose text is a string, the generator yields one
  text event with the text if and only if the text is not empty, then a
  start/delta/end triple for each tool call in list order, then one done event
  with the whole result. The done event is the last event and the only done
  event, and the sequence is a finite list. What \<^verbatim>\<open>streamComplete\<close> yields is
  this sequence for the result of \<^verbatim>\<open>complete\<close>, and nothing when \<^verbatim>\<open>complete\<close>
  fails.
\<close>

theorem stream_sequence:
  "(res_text result = JStr s \<longrightarrow> yields result = spec_stream result) \<and>
   last (yields result) = Done result \<and>
   filter is_done (yields result) = [Done result] \<and>
   (fst (complete options rt) = Inr result \<longrightarrow>
      fst (streamComplete options rt) = (yields result, None)) \<and>
   (fst (complete options rt) = Inl e \<longrightarrow> fst (streamComplete options rt) = ([], Some e))"
proof (intro conjI impI)
  assume "res_text result = JStr s"
  then show "yields result = spec_stream result"
    by (simp add: yields_unfold spec_stream_def)
next
  show "last (yields result) = Done result"
    by (simp add: yields_unfold)
next
  show "filter is_done (yields result) = [Done result]"
    by (simp add: yields_unfold no_done_in_triples)
next
  assume "fst (complete options rt) = Inr result"
  then show "fst (streamComplete options rt) = (yields result, None)"
    by (cases "complete options rt") (simp add: streamComplete_def)
next
  assume "fst (complete options rt) = Inl e"
  then show "fst (streamComplete options rt) = ([], Some e)"
    by (cases "complete options rt") (simp add: streamComplete_def)
qed

text \<open>
  A result with the text \<^verbatim>\<open>"x"\<close> and two tool calls yields eight events; the run
  with the text \<^verbatim>\<open>"abc"\<close> yields the text event and the done event; a rejected
  \<^verbatim>\<open>createOpencode\<close> yields nothing.
\<close>

theorem stream_sequence_witness:
  "yields ((example_result ''x'')\<lparr>res_toolCalls :=
      Some [\<lparr>call_id = ''1'', call_name = ''ls'', call_arguments = ''{}''\<rparr>,
            \<lparr>call_id = ''2'', call_name = ''cat'', call_arguments = ''[]''\<rparr>]\<rparr>) =
     [TextEvent (JStr ''x''),
      ToolCallStart ''1'' ''ls'', ToolCallDelta ''1'' ''{}'', ToolCallEnd ''1'' ''ls'' ''{}'',
      ToolCallStart ''2'' ''cat'', ToolCallDelta ''2'' ''[]'', ToolCallEnd ''2'' ''cat'' ''[]'',
      Done ((example_result ''x'')\<lparr>res_toolCalls :=
        Some [\<lparr>call_id = ''1'', call_name = ''ls'', call_arguments = ''{}''\<rparr>,
              \<lparr>call_id = ''2'', call_name = ''cat'', call_arguments = ''[]''\<rparr>]\<rparr>)] \<and>
   fst (streamComplete (example_options None)
          (example_runtime [Yield (text_part_event ''ses_1'' ''abc'')] None)) =
     ([TextEvent (JStr ''abc''), Done (example_result ''abc'')], None) \<and>
   fst (streamComplete (example_options None)
          ((example_runtime [] None)\<lparr>createOpencode_result := Some (Remote ''spawn'')\<rparr>)) =
     ([], Some (Remote ''spawn''))"
proof -
  let ?r = "(example_result ''x'')\<lparr>res_toolCalls :=
      Some [\<lparr>call_id = ''1'', call_name = ''ls'', call_arguments = ''{}''\<rparr>,
            \<lparr>call_id = ''2'', call_name = ''cat'', call_arguments = ''[]''\<rparr>]\<rparr>"
  let ?rt = "example_runtime [Yield (text_part_event ''ses_1'' ''abc'')] None"
  let ?rt' = "(example_runtime [] None)\<lparr>createOpencode_result := Some (Remote ''spawn'')\<rparr>"
  have t: "res_text ?r = JStr ''x''" "res_text (example_result ''abc'') = JStr ''abc''"
    by (simp_all add: example_result_def)
  have ok: "fst (complete (example_options None) ?rt) = Inr (example_result ''abc'')"
    by code_simp
  have ko: "fst (complete (example_options None) ?rt') = Inl (Remote ''spawn'')"
    by code_simp
  note i1 = stream_sequence [where result = ?r and s = "''x''"]
  note i2 = stream_sequence [where result = "example_result ''abc''" and s = "''abc''"
      and options = "example_options None" and rt = ?rt]
  note i3 = stream_sequence [where options = "example_options None" and rt = ?rt'
      and e = "Remote ''spawn''"]
  from i1 t have 1: "yields ?r = spec_stream ?r" by blast
  from i2 t ok have 2: "fst (streamComplete (example_options None) ?rt) =
      (spec_stream (example_result ''abc''), None)" by simp
  from i3 ko have 3: "fst (streamComplete (example_options None) ?rt') = ([], Some (Remote ''spawn''))"
    by blast
  from 1 2 3 show ?thesis
    by (simp add: spec_stream_def example_result_def)
qed

subsection \<open>Tool calls (C10)\<close>

text \<open>
  C10: the list of tool calls is never written by the loop, so it is empty when
  the loop exits; every result \<^verbatim>\<open>complete\<close> returns has no \<^verbatim>\<open>toolCalls\<close>, and
  \<^verbatim>\<open>streamComplete\<close> yields no tool-call event.
\<close>

theorem no_tool_calls:
  "(outcome (event_loop sid lk ab st steps) = Inr st' \<longrightarrow> toolCalls st' = toolCalls st) \<and>
   (fst (complete options rt) = Inr result \<longrightarrow> res_toolCalls result = None) \<and>
   filter is_tool_event (fst (fst (streamComplete options rt))) = []"
proof (intro conjI impI)
  assume "outcome (event_loop sid lk ab st steps) = Inr st'"
  then show "toolCalls st' = toolCalls st"
    by (simp add: event_loop_keeps_toolCalls)
next
  assume "fst (complete options rt) = Inr result"
  from complete_Inr [OF this] obtain sid' steps' s where
    "outcome (event_loop sid' (has_listener options) False initial_state steps') = Inr s"
    "result = finalize s"
    by blast
  moreover from this have "toolCalls s = toolCalls initial_state"
    by (simp add: event_loop_keeps_toolCalls)
  ultimately show "res_toolCalls result = None"
    by (simp add: finalize_def initial_state_def)
next
  show "filter is_tool_event (fst (fst (streamComplete options rt))) = []"
  proof (cases "fst (complete options rt)")
    case (Inl e)
    then show ?thesis
      by (cases "complete options rt") (simp add: streamComplete_def)
  next
    case (Inr result)
    from complete_Inr [OF this] obtain sid' steps' s where
      "outcome (event_loop sid' (has_listener options) False initial_state steps') = Inr s"
      "result = finalize s"
      by blast
    moreover from this have "toolCalls s = toolCalls initial_state"
      by (simp add: event_loop_keeps_toolCalls)
    ultimately have "res_toolCalls result = None"
      by (simp add: finalize_def initial_state_def)
    with Inr show ?thesis
      by (cases "complete options rt") (simp add: streamComplete_def yields_unfold)
  qed
qed

text \<open>
  The run with the texts \<^verbatim>\<open>"a"\<close>, \<^verbatim>\<open>"ab"\<close>, \<^verbatim>\<open>"abc"\<close>: the result has no tool
  calls and the stream has none of the three tool-call events.
\<close>

theorem no_tool_calls_witness:
  "fst (complete (example_options None)
          (example_runtime
             [Yield (text_part_event ''ses_1'' ''a''),
              Yield (text_part_event ''ses_1'' ''ab''),
              Yield (text_part_event ''ses_1'' ''abc''),
              Yield (idle_event ''ses_1'')] None)) = Inr (example_result ''abc'') \<and>
   res_toolCalls (example_result ''abc'') = None \<and>
   outcome (event_loop ''ses_1'' False False initial_state
              [Yield (text_part_event ''ses_1'' ''a'')]) =
     Inr (initial_state\<lparr>responseText := JStr ''a''\<rparr>) \<and>
   toolCalls (initial_state\<lparr>responseText := JStr ''a''\<rparr>) = toolCalls initial_state"
proof -
  let ?rt = "example_runtime
             [Yield (text_part_event ''ses_1'' ''a''),
              Yield (text_part_event ''ses_1'' ''ab''),
              Yield (text_part_event ''ses_1'' ''abc''),
              Yield (idle_event ''ses_1'')] None"
  have run: "fst (complete (example_options None) ?rt) = Inr (example_result ''abc'')"
    by code_simp
  have lp: "outcome (event_loop ''ses_1'' False False initial_state
              [Yield (text_part_event ''ses_1'' ''a'')]) =
     Inr (initial_state\<lparr>responseText := JStr ''a''\<rparr>)"
    by code_simp
  note i1 = no_tool_calls [where options = "example_options None" and rt = ?rt
      and result = "example_result ''abc''" and sid = "''ses_1''" and lk = False and ab = False
      and st = initial_state and steps = "[Yield (text_part_event ''ses_1'' ''a'')]"
      and st' = "initial_state\<lparr>responseText := JStr ''a''\<rparr>"]
  from i1 run have 1: "res_toolCalls (example_result ''abc'') = None" by blast
  from i1 lp have 2: "toolCalls (initial_state\<lparr>responseText := JStr ''a''\<rparr>) = toolCalls initial_state"
    by blast
  from run lp 1 2 show ?thesis by blast
qed

end
